theory Spec2Isabelle
  imports Complex_Main
begin

section \<open>Data model\<close>

text \<open>
  The documents of src/models/product.ts and src/models/sale.ts. Mongo object ids are
  strings; JavaScript numbers are modelled as exact numbers: \<open>int\<close> for stock and
  quantity, \<open>real\<close> for money (the rounding error of doubles is outside the model).
  Timestamps (\<open>createdAt\<close>, \<open>updatedAt\<close>) are left out.
\<close>

type_synonym object_id = string

text \<open>IProduct: \<open>pname\<close> is the field \<open>name\<close> of the product document.\<close>

record product =
  pname :: string
  stock :: int

text \<open>One entry of ISale.items, which is also the shape of a request's line item.\<close>

record item =
  productId :: object_id
  name :: string
  quantity :: int
  price :: real
  total :: real

datatype sale_status = Pending | Completed | Cancelled

datatype payment_status = PaymentPending | Paid | Failed

datatype payment_method = Cash | Upi

record sale =
  invoiceId :: string
  customerId :: "object_id option"
  customerName :: string
  items :: "item list"
  totalAmount :: real
  cashierId :: object_id
  cashierName :: string
  status :: sale_status
  paymentStatus :: payment_status
  paymentMethod :: payment_method
  razorpayOrderId :: "string option"
  razorpayPaymentId :: "string option"
  razorpaySignature :: "string option"

text \<open>
  src/utils/error.ts: an AppError carries a message and an HTTP status code. The replies
  \<open>res.status(code).json({message})\<close> of src/routes/sales.ts are written the same way.
\<close>

datatype app_error = AppError string nat

text \<open>
  The payment gateway: \<open>razorpay.orders.create\<close> receives an amount, a currency and a
  receipt (the \<open>notes\<close> that src/routes/invoices.ts adds are left out). It returns an
  order with an id, or \<open>null\<close> or \<open>undefined\<close> (\<open>Nullish\<close>), or another falsy value
  (\<open>OtherFalsy\<close>: reading \<open>.id\<close> of it gives \<open>undefined\<close> and does not throw), or it throws.
\<close>

record gateway_request =
  amount :: real
  currency :: string
  receipt :: string

datatype gateway_result = Created string | Nullish | OtherFalsy | Throws string

text \<open>
  The state the routes read and write: the Product collection (by \<open>_id\<close>), the ids of
  the Customer collection, the Sale collection in insertion order, and the requests
  sent to the gateway so far.
\<close>

record world =
  products :: "object_id \<rightharpoonup> product"
  customers :: "object_id set"
  sales :: "sale list"
  gateway_calls :: "gateway_request list"

section \<open>Library functions\<close>

text \<open>
  What the routes use of express-validator and Mongoose, none of it part of the
  sources: the validator \<open>isMongoId\<close>, the sanitizers \<open>trim\<close> and \<open>escape\<close>, and whether
  Mongoose can cast a string to an ObjectId (\<open>castObjectId\<close>; \<open>findById\<close> and
  \<open>new mongoose.Types.ObjectId\<close> throw when it cannot, and a document holding such an id
  fails validation).
\<close>

record library =
  isMongoId :: "string \<Rightarrow> bool"
  trim :: "string \<Rightarrow> string"
  escape :: "string \<Rightarrow> string"
  castObjectId :: "string \<Rightarrow> bool"

section \<open>Signature verification (src/utils/razorpay.ts)\<close>

text \<open>
  \<open>hmac key msg\<close> stands for
  \<open>crypto.createHmac('sha256', key).update(msg).digest('hex')\<close> of the Node library,
  and \<open>secret\<close> for \<open>ENV.RAZORPAY_KEY_SECRET\<close>.
\<close>

definition verifyPaymentSignature ::
  "(string \<Rightarrow> string \<Rightarrow> string) \<Rightarrow> string \<Rightarrow> string \<Rightarrow> string \<Rightarrow> string \<Rightarrow> bool" where
  "verifyPaymentSignature hmac secret orderId paymentId signature =
     (let generatedSignature = hmac secret (orderId @ ''|'' @ paymentId)
      in generatedSignature = signature)"

section \<open>The Sale collection\<close>

text \<open>
  \<open>Sale.findOne({ invoiceId })\<close>: the position of the first document with that invoice
  id. The position identifies the document that a later \<open>save\<close> writes back.
\<close>

fun findOne_invoiceId :: "string \<Rightarrow> sale list \<Rightarrow> nat option" where
  "findOne_invoiceId i [] = None"
| "findOne_invoiceId i (s # ss) =
     (if invoiceId s = i then Some 0 else map_option Suc (findOne_invoiceId i ss))"

text \<open>
  Saving a new document. The schema declares \<open>invoiceId\<close> with \<open>unique: true\<close>, so the
  store refuses a document whose invoice id is already there (duplicate key error
  E11000, here \<open>None\<close>); otherwise the document is appended.
\<close>

definition insert_sale :: "sale list \<Rightarrow> sale \<Rightarrow> sale list option" where
  "insert_sale ss s =
     (if invoiceId s \<in> set (map invoiceId ss) then None else Some (ss @ [s]))"

text \<open>
  Mongoose validates a new document against saleSchema before it is stored: the
  required strings \<open>invoiceId\<close>, \<open>cashierName\<close> and every item's \<open>name\<close> must not be
  empty, and every id must cast to an ObjectId. (The required numbers are there by
  their type.)
\<close>

definition sale_schema_valid :: "library \<Rightarrow> sale \<Rightarrow> bool" where
  "sale_schema_valid lib s \<longleftrightarrow>
     invoiceId s \<noteq> [] \<and> cashierName s \<noteq> [] \<and> castObjectId lib (cashierId s) \<and>
     (case customerId s of None \<Rightarrow> True | Some c \<Rightarrow> castObjectId lib c) \<and>
     list_all (\<lambda>it. castObjectId lib (productId it) \<and> name it \<noteq> []) (items s)"

text \<open>\<open>save\<close> of a new document, or \<open>Sale.create\<close>: validation, then the unique index.
  Every failure is an exception (\<open>None\<close>).\<close>

definition save_new_sale :: "library \<Rightarrow> sale list \<Rightarrow> sale \<Rightarrow> sale list option" where
  "save_new_sale lib ss s = (if sale_schema_valid lib s then insert_sale ss s else None)"

text \<open>
  \<open>Product.findById\<close>: it throws a cast error for a string that is no ObjectId, and
  otherwise returns the document or \<open>null\<close>.
\<close>

datatype find_result = CastError | NotFound | Found product

definition findById :: "library \<Rightarrow> (object_id \<rightharpoonup> product) \<Rightarrow> object_id \<Rightarrow> find_result" where
  "findById lib ps pid =
     (if \<not> castObjectId lib pid then CastError
      else case ps pid of None \<Rightarrow> NotFound | Some p \<Rightarrow> Found p)"

section \<open>Checkout of src/routes/invoices.ts (POST /)\<close>

record invoice_body =
  body_customerId :: "object_id option"
  body_customerName :: "string option"
  body_items :: "item list"
  body_totalAmount :: real
  body_paymentMethod :: "payment_method option"

record auth_user =
  user_id :: object_id
  username :: string

text \<open>
  The express-validator chain of the route (lines 96 to 133). Its validators see the
  body as it was sent: \<open>notEmpty\<close> stands before \<open>trim\<close> in the chain of \<open>items.*.name\<close>.
\<close>

definition item_valid :: "item \<Rightarrow> bool" where
  "item_valid it \<longleftrightarrow>
     productId it \<noteq> [] \<and> name it \<noteq> [] \<and> 1 \<le> quantity it \<and> 0 \<le> price it \<and> 0 \<le> total it"

definition invoice_body_valid :: "library \<Rightarrow> invoice_body \<Rightarrow> bool" where
  "invoice_body_valid lib b \<longleftrightarrow>
     (case body_customerId b of None \<Rightarrow> True | Some c \<Rightarrow> isMongoId lib c) \<and>
     body_items b \<noteq> [] \<and> list_all item_valid (body_items b) \<and> 0 \<le> body_totalAmount b"

text \<open>
  The sanitizers of the chain rewrite \<open>req.body\<close> before the handler reads it:
  \<open>customerName\<close> and every item's \<open>name\<close> are trimmed and escaped.
\<close>

definition sanitize_item :: "library \<Rightarrow> item \<Rightarrow> item" where
  "sanitize_item lib it = it\<lparr>name := escape lib (trim lib (name it))\<rparr>"

definition sanitize_body :: "library \<Rightarrow> invoice_body \<Rightarrow> invoice_body" where
  "sanitize_body lib b =
     b\<lparr>body_customerName := map_option (\<lambda>s. escape lib (trim lib s)) (body_customerName b),
       body_items := map (sanitize_item lib) (body_items b)\<rparr>"

text \<open>
  Lines 155 to 161: a customer id that is given (and truthy) is looked up. The lookup
  throws for a string that is no ObjectId, which the \<open>catch\<close> block answers; a customer
  that is not there is answered 404.
\<close>

definition customer_check :: "library \<Rightarrow> world \<Rightarrow> object_id option \<Rightarrow> app_error option" where
  "customer_check lib w c =
     (case c of
        None \<Rightarrow> None
      | Some x \<Rightarrow>
          if x = [] then None
          else if \<not> castObjectId lib x then Some (AppError ''Server error'' 500)
          else if x \<notin> customers w then Some (AppError ''Customer not found'' 404)
          else None)"

text \<open>\<open>customerId || null\<close>\<close>

definition id_or_null :: "object_id option \<Rightarrow> object_id option" where
  "id_or_null c = (case c of None \<Rightarrow> None | Some x \<Rightarrow> if x = [] then None else Some x)"

text \<open>
  The loop "stock checks and decrement" (lines 164 to 179). Each product is read,
  checked, decremented and saved before the next item is looked at; a failing item
  returns at once, and a read that throws ends in the \<open>catch\<close> block. The store is
  returned in every case.
\<close>

fun invoices_stock_loop ::
  "library \<Rightarrow> (object_id \<rightharpoonup> product) \<Rightarrow> item list
     \<Rightarrow> (object_id \<rightharpoonup> product) \<times> app_error option" where
  "invoices_stock_loop lib ps [] = (ps, None)"
| "invoices_stock_loop lib ps (it # its) =
     (case findById lib ps (productId it) of
        CastError \<Rightarrow> (ps, Some (AppError ''Server error'' 500))
      | NotFound \<Rightarrow> (ps, Some (AppError (''Product '' @ name it @ '' not found'') 404))
      | Found p \<Rightarrow>
          if stock p < quantity it
          then (ps, Some (AppError (''Insufficient stock for '' @ name it) 400))
          else invoices_stock_loop lib
                 (ps(productId it \<mapsto> p\<lparr>stock := stock p - quantity it\<rparr>)) its)"

text \<open>\<open>Math.round\<close>: the nearest integer, a tie going up.\<close>

definition js_round :: "real \<Rightarrow> int" where
  "js_round x = \<lfloor>x + 1 / 2\<rfloor>"

definition orderAmountPaise :: "real \<Rightarrow> int" where
  "orderAmountPaise tot = max (js_round (tot * 100)) 100"

definition string_or :: "string option \<Rightarrow> string \<Rightarrow> string" where
  "string_or v d = (case v of None \<Rightarrow> d | Some s \<Rightarrow> if s = [] then d else s)"

text \<open>The two documents the handler builds, from the sanitized body \<open>b\<close>.\<close>

definition cash_invoice :: "string \<Rightarrow> auth_user \<Rightarrow> invoice_body \<Rightarrow> sale" where
  "cash_invoice newId user b =
     \<lparr>invoiceId = newId, customerId = id_or_null (body_customerId b),
      customerName = string_or (body_customerName b) [],
      items = body_items b, totalAmount = body_totalAmount b,
      cashierId = user_id user, cashierName = username user,
      status = Completed, paymentStatus = Paid, paymentMethod = Cash,
      razorpayOrderId = None, razorpayPaymentId = None, razorpaySignature = None\<rparr>"

definition upi_invoice :: "string \<Rightarrow> auth_user \<Rightarrow> invoice_body \<Rightarrow> string \<Rightarrow> sale" where
  "upi_invoice newId user b orderId =
     \<lparr>invoiceId = newId, customerId = id_or_null (body_customerId b),
      customerName = string_or (body_customerName b) [],
      items = body_items b, totalAmount = body_totalAmount b,
      cashierId = user_id user, cashierName = username user,
      status = Pending, paymentStatus = PaymentPending, paymentMethod = Upi,
      razorpayOrderId = Some orderId, razorpayPaymentId = None, razorpaySignature = None\<rparr>"

text \<open>The argument of \<open>razorpay.orders.create\<close> on the UPI path.\<close>

definition upi_request :: "string \<Rightarrow> invoice_body \<Rightarrow> gateway_request" where
  "upi_request newId b =
     \<lparr>amount = of_int (orderAmountPaise (body_totalAmount b)), currency = ''INR'',
      receipt = newId\<rparr>"

text \<open>What the route answers with status 201: the invoice, and on the UPI path the
  gateway order id and the amount in paise as well.\<close>

datatype invoice_response = CashInvoice sale | UpiInvoice sale string int

fun invoice_of :: "invoice_response \<Rightarrow> sale" where
  "invoice_of (CashInvoice invoice) = invoice"
| "invoice_of (UpiInvoice invoice orderId paise) = invoice"

text \<open>
  The handler, after the validators have passed, on the sanitized body. \<open>gateway\<close> is
  the behaviour of \<open>razorpay.orders.create\<close> and \<open>newId\<close> the value \<open>generateInvoiceId()\<close>
  returns for this request (src/utils/invoice is not part of the sources). Every
  exception inside the \<open>try\<close> ends in the \<open>catch\<close> block, which answers "Server error"
  with status 500 and does nothing else.
\<close>

definition invoice_handler ::
  "library \<Rightarrow> (gateway_request \<Rightarrow> gateway_result) \<Rightarrow> string \<Rightarrow> auth_user \<Rightarrow> invoice_body
     \<Rightarrow> world \<Rightarrow> world \<times> (app_error + invoice_response)" where
  "invoice_handler lib gateway newId user b w =
     (case customer_check lib w (body_customerId b) of
        Some e \<Rightarrow> (w, Inl e)
      | None \<Rightarrow>
        (case invoices_stock_loop lib (products w) (body_items b) of
           (ps, Some e) \<Rightarrow> (w\<lparr>products := ps\<rparr>, Inl e)
         | (ps, None) \<Rightarrow>
             (let w1 = w\<lparr>products := ps\<rparr> in
              if body_paymentMethod b = Some Cash
              then
                (let invoice = cash_invoice newId user b in
                 case save_new_sale lib (sales w1) invoice of
                   None \<Rightarrow> (w1, Inl (AppError ''Server error'' 500))
                 | Some ss \<Rightarrow> (w1\<lparr>sales := ss\<rparr>, Inr (CashInvoice invoice)))
              else
                (let paise = orderAmountPaise (body_totalAmount b);
                     rq = upi_request newId b;
                     w2 = w1\<lparr>gateway_calls := gateway_calls w1 @ [rq]\<rparr>
                 in case gateway rq of
                      Throws m \<Rightarrow> (w2, Inl (AppError ''Server error'' 500))
                    | Nullish \<Rightarrow> (w2, Inl (AppError ''Failed to create Razorpay order'' 500))
                    | OtherFalsy \<Rightarrow>
                        (w2, Inl (AppError ''Failed to create Razorpay order'' 500))
                    | Created orderId \<Rightarrow>
                        (let invoice = upi_invoice newId user b orderId in
                         case save_new_sale lib (sales w2) invoice of
                           None \<Rightarrow> (w2, Inl (AppError ''Server error'' 500))
                         | Some ss \<Rightarrow>
                             (w2\<lparr>sales := ss\<rparr>, Inr (UpiInvoice invoice orderId paise)))))))"

text \<open>The route: the validators on the body as sent, then the handler on the body as
  the sanitizers leave it.\<close>

definition create_invoice ::
  "library \<Rightarrow> (gateway_request \<Rightarrow> gateway_result) \<Rightarrow> string \<Rightarrow> auth_user \<Rightarrow> invoice_body
     \<Rightarrow> world \<Rightarrow> world \<times> (app_error + invoice_response)" where
  "create_invoice lib gateway newId user b w =
     (if \<not> invoice_body_valid lib b then (w, Inl (AppError ''Validation errors'' 400))
      else invoice_handler lib gateway newId user (sanitize_body lib b) w)"

section \<open>Checkout of src/routes/sales.ts (POST /)\<close>

text \<open>The route has no validators and no sanitizers.\<close>

record sale_body =
  sb_items :: "item list"
  sb_customerId :: "object_id option"
  sb_customerName :: "string option"
  sb_cashierId :: object_id
  sb_cashierName :: string

text \<open>The loop "Validate items and update stock" (lines 112 to 122).\<close>

fun sales_stock_loop ::
  "library \<Rightarrow> (object_id \<rightharpoonup> product) \<Rightarrow> item list
     \<Rightarrow> (object_id \<rightharpoonup> product) \<times> app_error option" where
  "sales_stock_loop lib ps [] = (ps, None)"
| "sales_stock_loop lib ps (it # its) =
     (case findById lib ps (productId it) of
        CastError \<Rightarrow> (ps, Some (AppError ''Server error'' 500))
      | NotFound \<Rightarrow> (ps, Some (AppError (''Product '' @ productId it @ '' not found'') 404))
      | Found p \<Rightarrow>
          if stock p < quantity it
          then (ps, Some (AppError (''Insufficient stock for '' @ pname p) 400))
          else sales_stock_loop lib
                 (ps(productId it \<mapsto> p\<lparr>stock := stock p - quantity it\<rparr>)) its)"

text \<open>\<open>items.reduce((sum, item) => sum + item.total, 0)\<close>\<close>

definition reduce_total :: "item list \<Rightarrow> real" where
  "reduce_total its = foldl (\<lambda>sum it. sum + total it) 0 its"

text \<open>\<open>saleData\<close>; \<open>orderId\<close> is \<open>order.id\<close>, which is \<open>undefined\<close> for a falsy order that is
  not \<open>null\<close> or \<open>undefined\<close>.\<close>

definition pending_sale :: "string \<Rightarrow> sale_body \<Rightarrow> real \<Rightarrow> string option \<Rightarrow> sale" where
  "pending_sale newId b tot orderId =
     \<lparr>invoiceId = newId, customerId = id_or_null (sb_customerId b),
      customerName = string_or (sb_customerName b) ''Walk-in Customer'',
      items = sb_items b, totalAmount = tot,
      cashierId = sb_cashierId b, cashierName = sb_cashierName b,
      status = Pending, paymentStatus = PaymentPending, paymentMethod = Upi,
      razorpayOrderId = orderId, razorpayPaymentId = None, razorpaySignature = None\<rparr>"

text \<open>\<open>order.id\<close>: a type error for \<open>null\<close> and \<open>undefined\<close>.\<close>

definition order_id :: "gateway_result \<Rightarrow> string option option" where
  "order_id r =
     (case r of
        Created orderId \<Rightarrow> Some (Some orderId)
      | OtherFalsy \<Rightarrow> Some None
      | Nullish \<Rightarrow> None
      | Throws m \<Rightarrow> None)"

text \<open>
  The handler. \<open>receiptStamp\<close> and \<open>invoiceStamp\<close> are the decimal renderings of the two
  readings of \<open>Date.now()\<close>. The route does not test the order the gateway returns.
  Building \<open>saleData\<close> throws when an id does not cast or when \<open>order.id\<close> is read of
  \<open>null\<close> or \<open>undefined\<close>, and \<open>Sale.create\<close> throws when the document is not valid or its
  invoice id is taken; the \<open>catch\<close> block answers every exception "Server error" with
  status 500.
\<close>

definition create_sale ::
  "library \<Rightarrow> (gateway_request \<Rightarrow> gateway_result) \<Rightarrow> string \<Rightarrow> string \<Rightarrow> sale_body \<Rightarrow> world
     \<Rightarrow> world \<times> (app_error + sale)" where
  "create_sale lib gateway receiptStamp invoiceStamp b w =
     (case sales_stock_loop lib (products w) (sb_items b) of
        (ps, Some e) \<Rightarrow> (w\<lparr>products := ps\<rparr>, Inl e)
      | (ps, None) \<Rightarrow>
          (let w1 = w\<lparr>products := ps\<rparr>;
               tot = reduce_total (sb_items b);
               rq = \<lparr>amount = tot * 100, currency = ''INR'',
                     receipt = ''receipt_'' @ receiptStamp\<rparr>;
               w2 = w1\<lparr>gateway_calls := gateway_calls w1 @ [rq]\<rparr>
           in case order_id (gateway rq) of
                None \<Rightarrow> (w2, Inl (AppError ''Server error'' 500))
              | Some orderId \<Rightarrow>
                  (let saleData = pending_sale (''INV-'' @ invoiceStamp) b tot orderId in
                   case save_new_sale lib (sales w2) saleData of
                     None \<Rightarrow> (w2, Inl (AppError ''Server error'' 500))
                   | Some ss \<Rightarrow> (w2\<lparr>sales := ss\<rparr>, Inr saleData))))"

section \<open>Payment confirmation of src/routes/invoices.ts (POST /verify-payment)\<close>

record verify_body =
  razorpay_order_id :: string
  razorpay_payment_id :: string
  razorpay_signature :: string
  body_invoiceId :: string

definition verify_body_valid :: "verify_body \<Rightarrow> bool" where
  "verify_body_valid b \<longleftrightarrow>
     razorpay_order_id b \<noteq> [] \<and> razorpay_payment_id b \<noteq> [] \<and>
     razorpay_signature b \<noteq> [] \<and> body_invoiceId b \<noteq> []"

definition signature_ok :: "(string \<Rightarrow> string \<Rightarrow> string) \<Rightarrow> string \<Rightarrow> verify_body \<Rightarrow> bool" where
  "signature_ok hmac secret b =
     verifyPaymentSignature hmac secret
       (razorpay_order_id b) (razorpay_payment_id b) (razorpay_signature b)"

definition mark_failed :: "sale \<Rightarrow> sale" where
  "mark_failed invoice = invoice\<lparr>paymentStatus := Failed\<rparr>"

definition mark_paid :: "verify_body \<Rightarrow> sale \<Rightarrow> sale" where
  "mark_paid b invoice =
     invoice\<lparr>paymentStatus := Paid,
             razorpayPaymentId := Some (razorpay_payment_id b),
             razorpaySignature := Some (razorpay_signature b),
             status := Completed\<rparr>"

definition verify_payment ::
  "(string \<Rightarrow> string \<Rightarrow> string) \<Rightarrow> string \<Rightarrow> verify_body \<Rightarrow> world
     \<Rightarrow> world \<times> (app_error + sale)" where
  "verify_payment hmac secret b w =
     (if \<not> verify_body_valid b then (w, Inl (AppError ''Validation errors'' 400))
      else
        (case findOne_invoiceId (body_invoiceId b) (sales w) of
           None \<Rightarrow> (w, Inl (AppError ''Invoice not found'' 404))
         | Some k \<Rightarrow>
             (let invoice = sales w ! k in
              if \<not> signature_ok hmac secret b
              then (w\<lparr>sales := (sales w)[k := mark_failed invoice]\<rparr>,
                    Inl (AppError ''Invalid payment signature'' 400))
              else (w\<lparr>sales := (sales w)[k := mark_paid b invoice]\<rparr>,
                    Inr (mark_paid b invoice)))))"

text \<open>A run of confirmation requests, one after the other.\<close>

fun verify_payments ::
  "(string \<Rightarrow> string \<Rightarrow> string) \<Rightarrow> string \<Rightarrow> verify_body list \<Rightarrow> world \<Rightarrow> world" where
  "verify_payments hmac secret [] w = w"
| "verify_payments hmac secret (b # bs) w =
     verify_payments hmac secret bs (fst (verify_payment hmac secret b w))"

section \<open>Two checkouts at once\<close>

text \<open>
  A request handler gives way to other requests at each \<open>await\<close>. In the stock loops
  these are the read \<open>await Product.findById(...)\<close> and the write \<open>await product.save()\<close>;
  between the two the handler holds the document it has read, checks it and
  decrements it. The schema of src/models/product.ts has no version check and the
  routes open no transaction, so the write stores the document the handler holds.

  A task is the stock loop of one request between two awaits: about to read the
  product of its first remaining item, or holding the document read for it, or
  finished.
\<close>

datatype route = InvoicesRoute | SalesRoute

datatype task =
    Reading route "item list"
  | Holding route product "item list"
  | Finished "app_error option"

definition not_found_error :: "route \<Rightarrow> item \<Rightarrow> app_error" where
  "not_found_error r it =
     (case r of
        InvoicesRoute \<Rightarrow> AppError (''Product '' @ name it @ '' not found'') 404
      | SalesRoute \<Rightarrow> AppError (''Product '' @ productId it @ '' not found'') 404)"

definition insufficient_error :: "route \<Rightarrow> item \<Rightarrow> product \<Rightarrow> app_error" where
  "insufficient_error r it p =
     (case r of
        InvoicesRoute \<Rightarrow> AppError (''Insufficient stock for '' @ name it) 400
      | SalesRoute \<Rightarrow> AppError (''Insufficient stock for '' @ pname p) 400)"

text \<open>One step of a task: the read, or the check and the write of the document held.\<close>

fun task_step ::
  "library \<Rightarrow> (object_id \<rightharpoonup> product) \<Rightarrow> task \<Rightarrow> (object_id \<rightharpoonup> product) \<times> task" where
  "task_step lib ps (Reading r []) = (ps, Finished None)"
| "task_step lib ps (Reading r (it # its)) =
     (case findById lib ps (productId it) of
        CastError \<Rightarrow> (ps, Finished (Some (AppError ''Server error'' 500)))
      | NotFound \<Rightarrow> (ps, Finished (Some (not_found_error r it)))
      | Found p \<Rightarrow> (ps, Holding r p (it # its)))"
| "task_step lib ps (Holding r p []) = (ps, Finished None)"
| "task_step lib ps (Holding r p (it # its)) =
     (if stock p < quantity it
      then (ps, Finished (Some (insufficient_error r it p)))
      else (ps(productId it \<mapsto> p\<lparr>stock := stock p - quantity it\<rparr>), Reading r its))"
| "task_step lib ps (Finished res) = (ps, Finished res)"

text \<open>A task run alone for a number of steps.\<close>

fun run_alone ::
  "library \<Rightarrow> nat \<Rightarrow> (object_id \<rightharpoonup> product) \<Rightarrow> task \<Rightarrow> (object_id \<rightharpoonup> product) \<times> task" where
  "run_alone lib 0 ps t = (ps, t)"
| "run_alone lib (Suc n) ps t =
     (case task_step lib ps t of (ps', t') \<Rightarrow> run_alone lib n ps' t')"

text \<open>Two tasks on one store; the schedule says which of them takes the next step
  (\<open>True\<close> for the first).\<close>

fun run_two ::
  "library \<Rightarrow> bool list \<Rightarrow> (object_id \<rightharpoonup> product) \<times> task \<times> task
     \<Rightarrow> (object_id \<rightharpoonup> product) \<times> task \<times> task" where
  "run_two lib [] c = c"
| "run_two lib (first # sched) (ps, a, b) =
     (if first
      then (case task_step lib ps a of (ps', a') \<Rightarrow> run_two lib sched (ps', a', b))
      else (case task_step lib ps b of (ps', b') \<Rightarrow> run_two lib sched (ps', a, b')))"

text \<open>The stock loop of each route, to compare a task run alone with.\<close>

definition stock_loop ::
  "route \<Rightarrow> library \<Rightarrow> (object_id \<rightharpoonup> product) \<Rightarrow> item list
     \<Rightarrow> (object_id \<rightharpoonup> product) \<times> app_error option" where
  "stock_loop r = (case r of InvoicesRoute \<Rightarrow> invoices_stock_loop | SalesRoute \<Rightarrow> sales_stock_loop)"

text \<open>The document a task holds, if it holds one, has no negative stock.\<close>

definition holds_nonneg :: "task \<Rightarrow> bool" where
  "holds_nonneg t = (case t of Holding r p its \<Rightarrow> 0 \<le> stock p | _ \<Rightarrow> True)"

section \<open>Notions used to state the properties\<close>

text \<open>The quantity a list of items asks of one product, over all its entries.\<close>

definition requested :: "item list \<Rightarrow> object_id \<Rightarrow> int" where
  "requested its pid = sum_list (map quantity (filter (\<lambda>it. productId it = pid) its))"

text \<open>The store in which every product has lost what the items ask of it.\<close>

definition decremented ::
  "(object_id \<rightharpoonup> product) \<Rightarrow> item list \<Rightarrow> (object_id \<rightharpoonup> product)" where
  "decremented ps its =
     (\<lambda>pid. map_option (\<lambda>p. p\<lparr>stock := stock p - requested its pid\<rparr>) (ps pid))"

text \<open>An item that the stock loops refuse in a given store: the read of its product
  throws, or its product is missing, or has less stock than the item asks for.\<close>

definition item_rejected :: "library \<Rightarrow> (object_id \<rightharpoonup> product) \<Rightarrow> item \<Rightarrow> bool" where
  "item_rejected lib ps it =
     (case findById lib ps (productId it) of
        CastError \<Rightarrow> True
      | NotFound \<Rightarrow> True
      | Found p \<Rightarrow> stock p < quantity it)"

section \<open>Example data\<close>

text \<open>A keyed hash to run the examples with: any function of key and message will do.\<close>

definition demo_hmac :: "string \<Rightarrow> string \<Rightarrow> string" where
  "demo_hmac key msg = msg @ ''#'' @ key"

text \<open>Library functions to run the examples with: an ObjectId is written as 24
  hexadecimal digits, \<open>trim\<close> drops the blanks at both ends, and \<open>escape\<close> rewrites the
  ampersand and the angle brackets.\<close>

definition is_hex_char :: "char \<Rightarrow> bool" where
  "is_hex_char c \<longleftrightarrow> c \<in> set ''0123456789abcdefABCDEF''"

definition is_hex24 :: "string \<Rightarrow> bool" where
  "is_hex24 s \<longleftrightarrow> length s = 24 \<and> list_all is_hex_char s"

definition demo_trim :: "string \<Rightarrow> string" where
  "demo_trim s =
     rev (dropWhile (\<lambda>c. c = CHR '' '') (rev (dropWhile (\<lambda>c. c = CHR '' '') s)))"

definition demo_escape :: "string \<Rightarrow> string" where
  "demo_escape s =
     concat (map (\<lambda>c. if c = CHR ''&'' then ''&amp;''
                      else if c = CHR ''<'' then ''&lt;''
                      else if c = CHR ''>'' then ''&gt;'' else [c]) s)"

definition demo_library :: library where
  "demo_library =
     \<lparr>isMongoId = is_hex24, trim = demo_trim, escape = demo_escape, castObjectId = is_hex24\<rparr>"

definition ex_p1 :: object_id where
  "ex_p1 = ''64b000000000000000000001''"

definition ex_p2 :: object_id where
  "ex_p2 = ''64b000000000000000000002''"

definition ex_u1 :: object_id where
  "ex_u1 = ''64b0000000000000000000a1''"

definition ex_c1 :: object_id where
  "ex_c1 = ''64b0000000000000000000c1''"

definition ex_products :: "object_id \<rightharpoonup> product" where
  "ex_products = [ex_p1 \<mapsto> \<lparr>pname = ''Aspirin'', stock = 5\<rparr>,
                  ex_p2 \<mapsto> \<lparr>pname = ''Bandage'', stock = 1\<rparr>]"

definition ex_item1 :: item where
  "ex_item1 = \<lparr>productId = ex_p1, name = ''Aspirin'', quantity = 2, price = 10, total = 20\<rparr>"

definition ex_item2 :: item where
  "ex_item2 = \<lparr>productId = ex_p2, name = ''Bandage'', quantity = 3, price = 5, total = 15\<rparr>"

definition ex_item3 :: item where
  "ex_item3 = \<lparr>productId = ex_p1, name = ''Aspirin'', quantity = 3, price = 10, total = 30\<rparr>"

definition ex_item_half :: item where
  "ex_item_half =
     \<lparr>productId = ex_p1, name = ''Aspirin'', quantity = 1, price = 1 / 2, total = 1 / 2\<rparr>"

definition ex_world :: world where
  "ex_world = \<lparr>products = ex_products, customers = {ex_c1}, sales = [], gateway_calls = []\<rparr>"

definition ex_user :: auth_user where
  "ex_user = \<lparr>user_id = ex_u1, username = ''cashier''\<rparr>"

definition gateway_up :: "gateway_request \<Rightarrow> gateway_result" where
  "gateway_up rq = Created ''order_1''"

definition gateway_down :: "gateway_request \<Rightarrow> gateway_result" where
  "gateway_down rq = Throws ''timeout''"

definition ex_body_upi :: invoice_body where
  "ex_body_upi =
     \<lparr>body_customerId = None, body_customerName = None, body_items = [ex_item1],
      body_totalAmount = 20, body_paymentMethod = Some Upi\<rparr>"

definition ex_body_cash :: invoice_body where
  "ex_body_cash =
     \<lparr>body_customerId = None, body_customerName = None, body_items = [ex_item1],
      body_totalAmount = 999, body_paymentMethod = Some Cash\<rparr>"

definition ex_sale_body :: sale_body where
  "ex_sale_body =
     \<lparr>sb_items = [ex_item_half], sb_customerId = None, sb_customerName = None,
      sb_cashierId = ex_u1, sb_cashierName = ''cashier''\<rparr>"

text \<open>An order of invoice INV-1 that was opened at the gateway as order_1.\<close>

definition ex_pending_sale :: sale where
  "ex_pending_sale =
     \<lparr>invoiceId = ''INV-1'', customerId = None, customerName = [],
      items = [ex_item1], totalAmount = 20, cashierId = ex_u1, cashierName = ''cashier'',
      status = Pending, paymentStatus = PaymentPending, paymentMethod = Upi,
      razorpayOrderId = Some ''order_1'', razorpayPaymentId = None,
      razorpaySignature = None\<rparr>"

text \<open>The same order once settled by payment pay_1.\<close>

definition ex_paid_sale :: sale where
  "ex_paid_sale =
     \<lparr>invoiceId = ''INV-1'', customerId = None, customerName = [],
      items = [ex_item1], totalAmount = 20, cashierId = ex_u1, cashierName = ''cashier'',
      status = Completed, paymentStatus = Paid, paymentMethod = Upi,
      razorpayOrderId = Some ''order_1'', razorpayPaymentId = Some ''pay_1'',
      razorpaySignature = Some ''order_1|pay_1#secret''\<rparr>"

definition ex_pending_world :: world where
  "ex_pending_world =
     \<lparr>products = ex_products, customers = {ex_c1}, sales = [ex_pending_sale],
      gateway_calls = []\<rparr>"

definition ex_paid_world :: world where
  "ex_paid_world =
     \<lparr>products = ex_products, customers = {ex_c1}, sales = [ex_paid_sale],
      gateway_calls = []\<rparr>"

text \<open>The confirmation that settles INV-1, one with a forged signature, and one that
  is signed for another gateway order.\<close>

definition ex_confirm :: verify_body where
  "ex_confirm =
     \<lparr>razorpay_order_id = ''order_1'', razorpay_payment_id = ''pay_1'',
      razorpay_signature = ''order_1|pay_1#secret'', body_invoiceId = ''INV-1''\<rparr>"

definition ex_forged :: verify_body where
  "ex_forged =
     \<lparr>razorpay_order_id = ''order_1'', razorpay_payment_id = ''pay_1'',
      razorpay_signature = ''forged'', body_invoiceId = ''INV-1''\<rparr>"

definition ex_foreign :: verify_body where
  "ex_foreign =
     \<lparr>razorpay_order_id = ''order_7'', razorpay_payment_id = ''pay_7'',
      razorpay_signature = ''order_7|pay_7#secret'', body_invoiceId = ''INV-1''\<rparr>"

section \<open>Facts about the example data\<close>

lemma ex_ids_cast:
  "is_hex24 ex_p1" "is_hex24 ex_p2" "is_hex24 ex_u1" "is_hex24 ex_c1"
  by (simp_all add: is_hex24_def is_hex_char_def ex_p1_def ex_p2_def ex_u1_def ex_c1_def)

lemma ex_ids_distinct: "ex_p1 \<noteq> ex_p2" "ex_p2 \<noteq> ex_p1"
  by (simp_all add: ex_p1_def ex_p2_def)

lemma ex_ids_nonempty: "ex_p1 \<noteq> []" "ex_p2 \<noteq> []" "ex_u1 \<noteq> []"
  by (simp_all add: ex_p1_def ex_p2_def ex_u1_def)

lemma demo_sanitize_Aspirin: "demo_escape (demo_trim ''Aspirin'') = ''Aspirin''"
  by (simp add: demo_escape_def demo_trim_def)

lemma demo_findById:
  "findById demo_library ex_products ex_p1 = Found \<lparr>pname = ''Aspirin'', stock = 5\<rparr>"
  "findById demo_library ex_products ex_p2 = Found \<lparr>pname = ''Bandage'', stock = 1\<rparr>"
  by (simp_all add: findById_def demo_library_def ex_ids_cast ex_products_def ex_ids_distinct)

lemma ex_products_at:
  "ex_products ex_p1 = Some \<lparr>pname = ''Aspirin'', stock = 5\<rparr>"
  "ex_products ex_p2 = Some \<lparr>pname = ''Bandage'', stock = 1\<rparr>"
  by (simp_all add: ex_products_def ex_ids_distinct)

lemma demo_library_sel:
  "isMongoId demo_library = is_hex24" "trim demo_library = demo_trim"
  "escape demo_library = demo_escape" "castObjectId demo_library = is_hex24"
  by (simp_all add: demo_library_def)

section \<open>Facts about the stock loops\<close>

lemma findById_Found:
  "findById lib ps pid = Found p \<longleftrightarrow> castObjectId lib pid \<and> ps pid = Some p"
  by (simp add: findById_def split: option.splits)

lemma requested_Nil [simp]: "requested [] pid = 0"
  by (simp add: requested_def)

lemma requested_Cons:
  "requested (it # its) pid = (if productId it = pid then quantity it else 0) + requested its pid"
  by (simp add: requested_def)

lemma decremented_Nil [simp]: "decremented ps [] = ps"
  by (rule ext) (simp add: decremented_def option.map_ident map_option.identity)

lemma decremented_Cons:
  assumes "ps (productId it) = Some p"
  shows "decremented (ps(productId it \<mapsto> p\<lparr>stock := stock p - quantity it\<rparr>)) its
           = decremented ps (it # its)"
  using assms by (auto simp: decremented_def requested_Cons fun_eq_iff algebra_simps)

lemma invoices_stock_loop_ok:
  "snd (invoices_stock_loop lib ps its) = None \<Longrightarrow>
     fst (invoices_stock_loop lib ps its) = decremented ps its"
proof (induction its arbitrary: ps)
  case Nil
  show ?case by simp
next
  case (Cons it its)
  show ?case
  proof (cases "findById lib ps (productId it)")
    case CastError
    with Cons.prems show ?thesis by simp
  next
    case NotFound
    with Cons.prems show ?thesis by simp
  next
    case (Found p)
    then have p: "ps (productId it) = Some p" by (simp add: findById_Found)
    from Found Cons.prems have enough: "\<not> stock p < quantity it"
      by (auto split: if_splits)
    let ?ps = "ps(productId it \<mapsto> p\<lparr>stock := stock p - quantity it\<rparr>)"
    from Found enough Cons.prems have "snd (invoices_stock_loop lib ?ps its) = None" by simp
    then have "fst (invoices_stock_loop lib ?ps its) = decremented ?ps its" by (rule Cons.IH)
    with Found enough p show ?thesis by (simp add: decremented_Cons)
  qed
qed

lemma invoices_stock_loop_append:
  "snd (invoices_stock_loop lib ps pre) = None \<Longrightarrow>
     invoices_stock_loop lib ps (pre @ rest) =
       invoices_stock_loop lib (fst (invoices_stock_loop lib ps pre)) rest"
proof (induction pre arbitrary: ps)
  case Nil
  show ?case by simp
next
  case (Cons it pre)
  then show ?case
    by (auto split: find_result.splits if_splits)
qed

lemma invoices_stock_loop_rejected:
  "item_rejected lib ps it \<Longrightarrow>
     fst (invoices_stock_loop lib ps (it # post)) = ps \<and>
     snd (invoices_stock_loop lib ps (it # post)) \<noteq> None"
  by (auto simp: item_rejected_def split: find_result.splits)

lemma invoices_stock_loop_failed:
  "snd (invoices_stock_loop lib ps its) \<noteq> None \<Longrightarrow>
     \<exists>pre it post. its = pre @ it # post \<and> snd (invoices_stock_loop lib ps pre) = None \<and>
        item_rejected lib (fst (invoices_stock_loop lib ps pre)) it"
proof (induction its arbitrary: ps)
  case Nil
  then show ?case by simp
next
  case (Cons it its)
  show ?case
  proof (cases "item_rejected lib ps it")
    case True
    then have "it # its = [] @ it # its \<and> snd (invoices_stock_loop lib ps []) = None \<and>
        item_rejected lib (fst (invoices_stock_loop lib ps [])) it" by simp
    then show ?thesis by blast
  next
    case False
    then obtain p where p: "findById lib ps (productId it) = Found p" "\<not> stock p < quantity it"
      by (auto simp: item_rejected_def split: find_result.splits)
    let ?ps = "ps(productId it \<mapsto> p\<lparr>stock := stock p - quantity it\<rparr>)"
    from Cons.prems p have "snd (invoices_stock_loop lib ?ps its) \<noteq> None" by simp
    from Cons.IH [OF this] obtain pre x post where
      h: "its = pre @ x # post" "snd (invoices_stock_loop lib ?ps pre) = None"
         "item_rejected lib (fst (invoices_stock_loop lib ?ps pre)) x" by blast
    from h p have "it # its = (it # pre) @ x # post \<and>
        snd (invoices_stock_loop lib ps (it # pre)) = None \<and>
        item_rejected lib (fst (invoices_stock_loop lib ps (it # pre))) x" by simp
    then show ?thesis by blast
  qed
qed

lemma stock_loops_agree:
  "fst (sales_stock_loop lib ps its) = fst (invoices_stock_loop lib ps its) \<and>
   (snd (sales_stock_loop lib ps its) = None \<longleftrightarrow> snd (invoices_stock_loop lib ps its) = None)"
  by (induction its arbitrary: ps) (auto split: find_result.splits)

lemma sales_stock_loop_append:
  "snd (sales_stock_loop lib ps pre) = None \<Longrightarrow>
     sales_stock_loop lib ps (pre @ rest) =
       sales_stock_loop lib (fst (sales_stock_loop lib ps pre)) rest"
proof (induction pre arbitrary: ps)
  case Nil
  show ?case by simp
next
  case (Cons it pre)
  then show ?case
    by (auto split: find_result.splits if_splits)
qed

lemma sales_stock_loop_rejected:
  "item_rejected lib ps it \<Longrightarrow>
     fst (sales_stock_loop lib ps (it # post)) = ps \<and>
     snd (sales_stock_loop lib ps (it # post)) \<noteq> None"
  by (auto simp: item_rejected_def split: find_result.splits)

lemma invoices_stock_loop_sanitized:
  "fst (invoices_stock_loop lib ps (map (sanitize_item lib') its)) =
     fst (invoices_stock_loop lib ps its) \<and>
   (snd (invoices_stock_loop lib ps (map (sanitize_item lib') its)) = None \<longleftrightarrow>
    snd (invoices_stock_loop lib ps its) = None)"
  by (induction its arbitrary: ps) (auto simp: sanitize_item_def split: find_result.splits)

lemma decremented_sanitized:
  "decremented ps (map (sanitize_item lib) its) = decremented ps its"
proof -
  have "requested (map (sanitize_item lib) its) pid = requested its pid" for pid
    by (induction its) (simp_all add: requested_Cons sanitize_item_def)
  then show ?thesis by (simp add: decremented_def)
qed

section \<open>Stock reservation is sequential\<close>

text \<open>
  C1 (as amended). The stock loops of both checkouts work through the items in order
  and are not atomic. When a loop succeeds, every product has lost what the items ask
  of it. When the items before some item pass and that item is refused (the read of
  its product throws, the product is missing, or it has less stock than asked), the
  loop fails and leaves the store as the earlier items made it: their decrements are
  not undone. Every failure is of this kind.
\<close>

theorem stock_loops_sequential:
  "(snd (invoices_stock_loop lib ps its) = None \<longrightarrow>
      fst (invoices_stock_loop lib ps its) = decremented ps its) \<and>
   (snd (invoices_stock_loop lib ps pre) = None \<and> item_rejected lib (decremented ps pre) it \<longrightarrow>
      fst (invoices_stock_loop lib ps (pre @ it # post)) = decremented ps pre \<and>
      snd (invoices_stock_loop lib ps (pre @ it # post)) \<noteq> None) \<and>
   (snd (invoices_stock_loop lib ps its) \<noteq> None \<longrightarrow>
      (\<exists>pre it post. its = pre @ it # post \<and> snd (invoices_stock_loop lib ps pre) = None \<and>
         item_rejected lib (decremented ps pre) it)) \<and>
   (snd (sales_stock_loop lib ps its) = None \<longrightarrow>
      fst (sales_stock_loop lib ps its) = decremented ps its) \<and>
   (snd (sales_stock_loop lib ps pre) = None \<and> item_rejected lib (decremented ps pre) it \<longrightarrow>
      fst (sales_stock_loop lib ps (pre @ it # post)) = decremented ps pre \<and>
      snd (sales_stock_loop lib ps (pre @ it # post)) \<noteq> None) \<and>
   (snd (sales_stock_loop lib ps its) \<noteq> None \<longrightarrow>
      (\<exists>pre it post. its = pre @ it # post \<and> snd (sales_stock_loop lib ps pre) = None \<and>
         item_rejected lib (decremented ps pre) it))"
proof (intro conjI impI)
  assume "snd (invoices_stock_loop lib ps its) = None"
  then show "fst (invoices_stock_loop lib ps its) = decremented ps its"
    by (rule invoices_stock_loop_ok)
next
  assume h: "snd (invoices_stock_loop lib ps pre) = None \<and>
    item_rejected lib (decremented ps pre) it"
  then have pre: "fst (invoices_stock_loop lib ps pre) = decremented ps pre"
    by (simp add: invoices_stock_loop_ok)
  from h have app: "invoices_stock_loop lib ps (pre @ it # post) =
      invoices_stock_loop lib (decremented ps pre) (it # post)"
    by (simp add: invoices_stock_loop_append pre)
  from h have rej:
    "fst (invoices_stock_loop lib (decremented ps pre) (it # post)) = decremented ps pre \<and>
     snd (invoices_stock_loop lib (decremented ps pre) (it # post)) \<noteq> None"
    by (intro invoices_stock_loop_rejected) blast
  from rej show "fst (invoices_stock_loop lib ps (pre @ it # post)) = decremented ps pre"
    unfolding app by blast
  from rej show "snd (invoices_stock_loop lib ps (pre @ it # post)) \<noteq> None"
    unfolding app by blast
next
  assume "snd (invoices_stock_loop lib ps its) \<noteq> None"
  from invoices_stock_loop_failed [OF this] obtain pre it post where
    h: "its = pre @ it # post" "snd (invoices_stock_loop lib ps pre) = None"
       "item_rejected lib (fst (invoices_stock_loop lib ps pre)) it" by blast
  from h(2) have "fst (invoices_stock_loop lib ps pre) = decremented ps pre"
    by (rule invoices_stock_loop_ok)
  with h show "\<exists>pre it post. its = pre @ it # post \<and>
      snd (invoices_stock_loop lib ps pre) = None \<and> item_rejected lib (decremented ps pre) it"
    by auto
next
  assume "snd (sales_stock_loop lib ps its) = None"
  then show "fst (sales_stock_loop lib ps its) = decremented ps its"
    using stock_loops_agree [of lib ps its] by (simp add: invoices_stock_loop_ok)
next
  assume h: "snd (sales_stock_loop lib ps pre) = None \<and>
    item_rejected lib (decremented ps pre) it"
  then have pre: "fst (sales_stock_loop lib ps pre) = decremented ps pre"
    using stock_loops_agree [of lib ps pre] by (simp add: invoices_stock_loop_ok)
  from h have app: "sales_stock_loop lib ps (pre @ it # post) =
      sales_stock_loop lib (decremented ps pre) (it # post)"
    by (simp add: sales_stock_loop_append pre)
  from h have rej:
    "fst (sales_stock_loop lib (decremented ps pre) (it # post)) = decremented ps pre \<and>
     snd (sales_stock_loop lib (decremented ps pre) (it # post)) \<noteq> None"
    by (intro sales_stock_loop_rejected) blast
  from rej show "fst (sales_stock_loop lib ps (pre @ it # post)) = decremented ps pre"
    unfolding app by blast
  from rej show "snd (sales_stock_loop lib ps (pre @ it # post)) \<noteq> None"
    unfolding app by blast
next
  assume "snd (sales_stock_loop lib ps its) \<noteq> None"
  then have "snd (invoices_stock_loop lib ps its) \<noteq> None"
    using stock_loops_agree [of lib ps its] by simp
  from invoices_stock_loop_failed [OF this] obtain pre it post where
    h: "its = pre @ it # post" "snd (invoices_stock_loop lib ps pre) = None"
       "item_rejected lib (fst (invoices_stock_loop lib ps pre)) it" by blast
  from h(2) have "fst (invoices_stock_loop lib ps pre) = decremented ps pre"
    by (rule invoices_stock_loop_ok)
  moreover from h(2) have "snd (sales_stock_loop lib ps pre) = None"
    using stock_loops_agree [of lib ps pre] by simp
  ultimately show "\<exists>pre it post. its = pre @ it # post \<and>
      snd (sales_stock_loop lib ps pre) = None \<and> item_rejected lib (decremented ps pre) it"
    using h by auto
qed

text \<open>An instance: Aspirin passes, Bandage is refused, and Aspirin stays at 3.\<close>

theorem stock_loops_sequential_witness:
  "snd (invoices_stock_loop demo_library ex_products [ex_item1]) = None \<and>
   item_rejected demo_library (decremented ex_products [ex_item1]) ex_item2 \<and>
   fst (invoices_stock_loop demo_library ex_products ([ex_item1] @ ex_item2 # [])) =
     decremented ex_products [ex_item1] \<and>
   snd (invoices_stock_loop demo_library ex_products ([ex_item1] @ ex_item2 # [])) \<noteq> None \<and>
   snd (sales_stock_loop demo_library ex_products [ex_item1]) = None \<and>
   fst (sales_stock_loop demo_library ex_products ([ex_item1] @ ex_item2 # [])) =
     decremented ex_products [ex_item1] \<and>
   map_option stock (decremented ex_products [ex_item1] ex_p1) = Some 3"
proof -
  have ok: "snd (invoices_stock_loop demo_library ex_products [ex_item1]) = None"
    by (simp add: demo_findById ex_item1_def)
  have ok': "snd (sales_stock_loop demo_library ex_products [ex_item1]) = None"
    by (simp add: demo_findById ex_item1_def)
  have rej: "item_rejected demo_library (decremented ex_products [ex_item1]) ex_item2"
    by (simp add: item_rejected_def findById_def decremented_def requested_def
        demo_library_def ex_ids_cast ex_ids_distinct ex_products_def ex_item1_def ex_item2_def)
  have st: "map_option stock (decremented ex_products [ex_item1] ex_p1) = Some 3"
    by (simp add: decremented_def requested_def ex_products_def ex_ids_distinct ex_item1_def)
  from ok ok' rej st
    stock_loops_sequential
      [of demo_library ex_products "[ex_item1]" "[ex_item1]" ex_item2 "[]"]
  show ?thesis by blast
qed

text \<open>
  The claim as stated fails: with 5 Aspirin and 1 Bandage in stock, a checkout of
  2 Aspirin and 3 Bandage is refused for the Bandage, and the Aspirin stock is 3.
\<close>

theorem stock_loop_partial_counterexample:
  "snd (invoices_stock_loop demo_library ex_products [ex_item1, ex_item2]) =
     Some (AppError ''Insufficient stock for Bandage'' 400) \<and>
   snd (sales_stock_loop demo_library ex_products [ex_item1, ex_item2]) =
     Some (AppError ''Insufficient stock for Bandage'' 400) \<and>
   map_option stock (ex_products ex_p1) = Some 5 \<and>
   map_option stock
     (fst (invoices_stock_loop demo_library ex_products [ex_item1, ex_item2]) ex_p1) = Some 3 \<and>
   map_option stock
     (fst (sales_stock_loop demo_library ex_products [ex_item1, ex_item2]) ex_p1) = Some 3"
  by (simp add: findById_def demo_library_def ex_ids_cast ex_ids_distinct ex_products_def
      ex_item1_def ex_item2_def)

section \<open>A gateway failure keeps the reservation\<close>

lemma sanitize_body_sel:
  "body_customerId (sanitize_body lib b) = body_customerId b"
  "body_totalAmount (sanitize_body lib b) = body_totalAmount b"
  "body_paymentMethod (sanitize_body lib b) = body_paymentMethod b"
  "body_items (sanitize_body lib b) = map (sanitize_item lib) (body_items b)"
  by (simp_all add: sanitize_body_def)

lemma upi_request_sanitized: "upi_request newId (sanitize_body lib b) = upi_request newId b"
  by (simp add: upi_request_def sanitize_body_sel)

lemma save_new_sale_Some: "save_new_sale lib ss s = Some ss' \<Longrightarrow> ss' = ss @ [s]"
  by (simp add: save_new_sale_def insert_sale_def split: if_splits)

lemmas demo_eval =
  create_invoice_def invoice_handler_def invoice_body_valid_def item_valid_def
  sanitize_body_def sanitize_item_def customer_check_def save_new_sale_def
  sale_schema_valid_def insert_sale_def cash_invoice_def upi_invoice_def pending_sale_def
  id_or_null_def string_or_def upi_request_def orderAmountPaise_def js_round_def
  create_sale_def order_id_def reduce_total_def Let_def
  demo_library_sel demo_findById demo_sanitize_Aspirin ex_ids_cast ex_ids_nonempty
  gateway_up_def gateway_down_def

text \<open>
  C2 (as amended). On the UPI path of the invoices checkout, when the stock loop has
  passed and the gateway throws or returns nothing, the route answers an error of
  status 500 and persists no order; the stock stays as the loop left it, every
  product decremented by what the items ask: nothing releases the reservation.
\<close>

theorem gateway_failure_keeps_reservation:
  assumes "invoice_body_valid lib b"
    and "customer_check lib w (body_customerId b) = None"
    and "snd (invoices_stock_loop lib (products w) (body_items b)) = None"
    and "body_paymentMethod b \<noteq> Some Cash"
    and "\<forall>orderId. gateway (upi_request newId b) \<noteq> Created orderId"
  shows "(\<exists>msg. snd (create_invoice lib gateway newId user b w) = Inl (AppError msg 500)) \<and>
         sales (fst (create_invoice lib gateway newId user b w)) = sales w \<and>
         products (fst (create_invoice lib gateway newId user b w)) =
           decremented (products w) (body_items b)"
proof -
  let ?b = "sanitize_body lib b"
  have none: "snd (invoices_stock_loop lib (products w) (body_items ?b)) = None"
    using assms(3) invoices_stock_loop_sanitized [of lib "products w" lib "body_items b"]
    by (simp add: sanitize_body_sel)
  then obtain ps where loop: "invoices_stock_loop lib (products w) (body_items ?b) = (ps, None)"
    by (cases "invoices_stock_loop lib (products w) (body_items ?b)") auto
  have "ps = decremented (products w) (body_items ?b)"
    using invoices_stock_loop_ok [OF none] loop by simp
  then have ps: "ps = decremented (products w) (body_items b)"
    by (simp add: sanitize_body_sel decremented_sanitized)
  have route: "create_invoice lib gateway newId user b w = invoice_handler lib gateway newId user ?b w"
    using assms(1) by (simp add: create_invoice_def)
  show ?thesis
  proof (cases "gateway (upi_request newId b)")
    case (Created orderId)
    with assms(5) show ?thesis by blast
  next
    case Nullish
    with assms(2,4) loop ps show ?thesis
      unfolding route
      by (simp add: invoice_handler_def Let_def sanitize_body_sel(1,3) upi_request_sanitized)
  next
    case OtherFalsy
    with assms(2,4) loop ps show ?thesis
      unfolding route
      by (simp add: invoice_handler_def Let_def sanitize_body_sel(1,3) upi_request_sanitized)
  next
    case (Throws m)
    with assms(2,4) loop ps show ?thesis
      unfolding route
      by (simp add: invoice_handler_def Let_def sanitize_body_sel(1,3) upi_request_sanitized)
  qed
qed

theorem gateway_failure_keeps_reservation_witness:
  "invoice_body_valid demo_library ex_body_upi \<and>
   customer_check demo_library ex_world (body_customerId ex_body_upi) = None \<and>
   snd (invoices_stock_loop demo_library (products ex_world) (body_items ex_body_upi)) = None \<and>
   body_paymentMethod ex_body_upi \<noteq> Some Cash \<and>
   (\<exists>msg. snd (create_invoice demo_library gateway_down ''INV-2'' ex_user ex_body_upi ex_world) =
      Inl (AppError msg 500)) \<and>
   sales (fst (create_invoice demo_library gateway_down ''INV-2'' ex_user ex_body_upi ex_world)) =
     sales ex_world \<and>
   products (fst (create_invoice demo_library gateway_down ''INV-2'' ex_user ex_body_upi ex_world)) =
     decremented (products ex_world) (body_items ex_body_upi)"
proof -
  have 1: "invoice_body_valid demo_library ex_body_upi"
    by (simp add: invoice_body_valid_def item_valid_def ex_body_upi_def ex_item1_def
        ex_ids_nonempty)
  have 2: "customer_check demo_library ex_world (body_customerId ex_body_upi) = None"
    by (simp add: customer_check_def ex_body_upi_def)
  have 3: "snd (invoices_stock_loop demo_library (products ex_world) (body_items ex_body_upi))
      = None"
    by (simp add: ex_world_def ex_body_upi_def ex_item1_def demo_findById)
  have 4: "body_paymentMethod ex_body_upi \<noteq> Some Cash"
    by (simp add: ex_body_upi_def)
  have 5: "\<forall>orderId. gateway_down (upi_request ''INV-2'' ex_body_upi) \<noteq> Created orderId"
    by (simp add: gateway_down_def)
  from 1 2 3 4 gateway_failure_keeps_reservation
    [where lib = demo_library and b = ex_body_upi and w = ex_world and gateway = gateway_down
       and newId = "''INV-2''" and user = ex_user, OF 1 2 3 4 5]
  show ?thesis by simp
qed

text \<open>
  The claim as stated fails: the gateway is down, the checkout of 2 Aspirin answers
  "Server error", and the Aspirin stock has gone from 5 to 3.
\<close>

theorem gateway_failure_counterexample:
  "snd (create_invoice demo_library gateway_down ''INV-2'' ex_user ex_body_upi ex_world) =
     Inl (AppError ''Server error'' 500) \<and>
   map_option stock (products ex_world ex_p1) = Some 5 \<and>
   map_option stock
     (products (fst (create_invoice demo_library gateway_down ''INV-2'' ex_user ex_body_upi
        ex_world)) ex_p1)
     = Some 3"
  by (simp add: demo_eval ex_products_at ex_world_def ex_body_upi_def ex_item1_def)

section \<open>Facts about the confirmation route\<close>

lemma findOne_invoiceId_Some:
  "findOne_invoiceId i ss = Some k \<Longrightarrow> k < length ss \<and> invoiceId (ss ! k) = i"
proof (induction ss arbitrary: k)
  case Nil
  then show ?case by simp
next
  case (Cons s ss)
  show ?case
  proof (cases "invoiceId s = i")
    case True
    with Cons.prems show ?thesis by simp
  next
    case False
    with Cons.prems obtain k' where k': "findOne_invoiceId i ss = Some k'" "k = Suc k'"
      by (cases "findOne_invoiceId i ss") auto
    from Cons.IH [OF k'(1)] k'(2) show ?thesis by simp
  qed
qed

lemma verify_payment_invalid:
  assumes "\<not> signature_ok hmac secret b"
  shows "sales (fst (verify_payment hmac secret b w)) = sales w \<or>
         (\<exists>k<length (sales w).
            sales (fst (verify_payment hmac secret b w)) = (sales w)[k := mark_failed (sales w ! k)])"
proof (cases "findOne_invoiceId (body_invoiceId b) (sales w)")
  case None
  then show ?thesis by (simp add: verify_payment_def)
next
  case (Some k)
  then have "k < length (sales w)" by (simp add: findOne_invoiceId_Some)
  with Some assms show ?thesis by (auto simp: verify_payment_def Let_def)
qed

lemma verify_payment_invalid_not_paid:
  assumes "\<not> signature_ok hmac secret b" 
    and "paymentStatus (sales w ! j) \<noteq> Paid" and "j < length (sales w)"
  shows "paymentStatus (sales (fst (verify_payment hmac secret b w)) ! j) \<noteq> Paid"
  using verify_payment_invalid [OF assms(1), of w] assms(2,3)
  by (auto simp: nth_list_update mark_failed_def split: if_splits)

lemma verify_payment_length:
  "length (sales (fst (verify_payment hmac secret b w))) = length (sales w)"
  by (auto simp: verify_payment_def Let_def split: option.splits)

lemma verify_payments_invalid_not_paid:
  assumes "list_all (\<lambda>b. \<not> signature_ok hmac secret b) bs"
    and "paymentStatus (sales w ! j) \<noteq> Paid" and "j < length (sales w)"
  shows "paymentStatus (sales (verify_payments hmac secret bs w) ! j) \<noteq> Paid"
  using assms
proof (induction bs arbitrary: w)
  case Nil
  then show ?case by simp
next
  case (Cons b bs)
  have "paymentStatus (sales (fst (verify_payment hmac secret b w)) ! j) \<noteq> Paid"
    using Cons.prems by (simp add: verify_payment_invalid_not_paid)
  moreover have "j < length (sales (fst (verify_payment hmac secret b w)))"
    using Cons.prems by (simp add: verify_payment_length)
  ultimately show ?case using Cons.IH Cons.prems(1) by simp
qed

lemma mark_failed_same: "mark_failed s = s \<longleftrightarrow> paymentStatus s = Failed"
  by (cases s) (auto simp: mark_failed_def)

lemma mark_paid_same:
  "mark_paid b s = s \<longleftrightarrow>
     paymentStatus s = Paid \<and> status s = Completed \<and>
     razorpayPaymentId s = Some (razorpay_payment_id b) \<and>
     razorpaySignature s = Some (razorpay_signature b)"
  by (cases s) (auto simp: mark_paid_def)

section \<open>Confirmations on settled orders\<close>

text \<open>
  C3 (as amended). The confirmation route makes no test of the order's state. For an
  order found by its invoice id, in whatever state: when the signature verifies, the
  order is stored as Completed and Paid with the payment id and the signature of the
  request, and that order is answered; when it does not, the order is stored with
  payment status Failed and the invalid-signature error is answered; nothing else of
  the state changes. So the call leaves the state unchanged exactly when either the
  signature verifies and the order is already Completed and Paid with the very
  payment id and signature of the request (it then answers the order as it was), or
  the signature does not verify and the order's payment status is already Failed.
\<close>

theorem terminal_order_unchanged_iff:
  assumes "verify_body_valid b"
    and "findOne_invoiceId (body_invoiceId b) (sales w) = Some k"
  shows "(signature_ok hmac secret b \<longrightarrow>
            verify_payment hmac secret b w =
              (w\<lparr>sales := (sales w)[k := (sales w ! k)\<lparr>paymentStatus := Paid,
                    razorpayPaymentId := Some (razorpay_payment_id b),
                    razorpaySignature := Some (razorpay_signature b),
                    status := Completed\<rparr>]\<rparr>,
               Inr ((sales w ! k)\<lparr>paymentStatus := Paid,
                    razorpayPaymentId := Some (razorpay_payment_id b),
                    razorpaySignature := Some (razorpay_signature b),
                    status := Completed\<rparr>))) \<and>
         (\<not> signature_ok hmac secret b \<longrightarrow>
            verify_payment hmac secret b w =
              (w\<lparr>sales := (sales w)[k := (sales w ! k)\<lparr>paymentStatus := Failed\<rparr>]\<rparr>,
               Inl (AppError ''Invalid payment signature'' 400))) \<and>
         (fst (verify_payment hmac secret b w) = w \<longleftrightarrow>
           (if signature_ok hmac secret b
            then paymentStatus (sales w ! k) = Paid \<and> status (sales w ! k) = Completed \<and>
                 razorpayPaymentId (sales w ! k) = Some (razorpay_payment_id b) \<and>
                 razorpaySignature (sales w ! k) = Some (razorpay_signature b)
            else paymentStatus (sales w ! k) = Failed)) \<and>
         (signature_ok hmac secret b \<and> fst (verify_payment hmac secret b w) = w \<longrightarrow>
            snd (verify_payment hmac secret b w) = Inr (sales w ! k))"
proof -
  from assms(2) have k: "k < length (sales w)" by (simp add: findOne_invoiceId_Some)
  have upd: "w\<lparr>sales := (sales w)[k := s]\<rparr> = w \<longleftrightarrow> s = sales w ! k" for s
  proof
    assume "w\<lparr>sales := (sales w)[k := s]\<rparr> = w"
    then have "sales (w\<lparr>sales := (sales w)[k := s]\<rparr>) = sales w" by simp
    then have "(sales w)[k := s] = sales w" by simp
    with k show "s = sales w ! k" by (metis nth_list_update_eq)
  next
    assume "s = sales w ! k"
    then show "w\<lparr>sales := (sales w)[k := s]\<rparr> = w" by simp
  qed
  have paid: "signature_ok hmac secret b \<longrightarrow>
      verify_payment hmac secret b w =
        (w\<lparr>sales := (sales w)[k := mark_paid b (sales w ! k)]\<rparr>, Inr (mark_paid b (sales w ! k)))"
    using assms by (simp add: verify_payment_def Let_def)
  have failed: "\<not> signature_ok hmac secret b \<longrightarrow>
      verify_payment hmac secret b w =
        (w\<lparr>sales := (sales w)[k := mark_failed (sales w ! k)]\<rparr>,
         Inl (AppError ''Invalid payment signature'' 400))"
    using assms by (simp add: verify_payment_def Let_def)
  have same: "fst (verify_payment hmac secret b w) = w \<longleftrightarrow>
           (if signature_ok hmac secret b
            then paymentStatus (sales w ! k) = Paid \<and> status (sales w ! k) = Completed \<and>
                 razorpayPaymentId (sales w ! k) = Some (razorpay_payment_id b) \<and>
                 razorpaySignature (sales w ! k) = Some (razorpay_signature b)
            else paymentStatus (sales w ! k) = Failed)"
    using assms by (simp add: verify_payment_def Let_def upd mark_failed_same mark_paid_same)
  have ret: "signature_ok hmac secret b \<and> fst (verify_payment hmac secret b w) = w \<longrightarrow>
            snd (verify_payment hmac secret b w) = Inr (sales w ! k)"
    using assms by (simp add: verify_payment_def Let_def upd)
  from paid failed same ret show ?thesis
    unfolding mark_paid_def mark_failed_def by blast
qed

theorem terminal_order_unchanged_iff_witness:
  "verify_body_valid ex_confirm \<and>
   findOne_invoiceId (body_invoiceId ex_confirm) (sales ex_paid_world) = Some 0 \<and>
   signature_ok demo_hmac ''secret'' ex_confirm \<and>
   fst (verify_payment demo_hmac ''secret'' ex_confirm ex_paid_world) = ex_paid_world \<and>
   snd (verify_payment demo_hmac ''secret'' ex_confirm ex_paid_world) =
     Inr (sales ex_paid_world ! 0) \<and>
   fst (verify_payment demo_hmac ''secret'' ex_forged ex_paid_world) \<noteq> ex_paid_world"
proof -
  have 1: "verify_body_valid ex_confirm" "verify_body_valid ex_forged"
    by (simp_all add: verify_body_valid_def ex_confirm_def ex_forged_def)
  have 2: "findOne_invoiceId (body_invoiceId ex_confirm) (sales ex_paid_world) = Some 0"
    "findOne_invoiceId (body_invoiceId ex_forged) (sales ex_paid_world) = Some 0"
    by (simp_all add: ex_confirm_def ex_forged_def ex_paid_world_def ex_paid_sale_def)
  have 3: "signature_ok demo_hmac ''secret'' ex_confirm"
    "\<not> signature_ok demo_hmac ''secret'' ex_forged"
    by (simp_all add: signature_ok_def verifyPaymentSignature_def demo_hmac_def
        ex_confirm_def ex_forged_def)
  have 4: "paymentStatus (sales ex_paid_world ! 0) = Paid"
    "status (sales ex_paid_world ! 0) = Completed"
    "razorpayPaymentId (sales ex_paid_world ! 0) = Some (razorpay_payment_id ex_confirm)"
    "razorpaySignature (sales ex_paid_world ! 0) = Some (razorpay_signature ex_confirm)"
    by (simp_all add: ex_paid_world_def ex_paid_sale_def ex_confirm_def)
  note confirm = terminal_order_unchanged_iff [OF 1(1) 2(1), of demo_hmac "''secret''"]
  note forged = terminal_order_unchanged_iff [OF 1(2) 2(2), of demo_hmac "''secret''"]
  from confirm
  have iff_confirm:
    "(fst (verify_payment demo_hmac ''secret'' ex_confirm ex_paid_world) = ex_paid_world) =
       (if signature_ok demo_hmac ''secret'' ex_confirm
        then paymentStatus (sales ex_paid_world ! 0) = Paid \<and>
             status (sales ex_paid_world ! 0) = Completed \<and>
             razorpayPaymentId (sales ex_paid_world ! 0) =
               Some (razorpay_payment_id ex_confirm) \<and>
             razorpaySignature (sales ex_paid_world ! 0) =
               Some (razorpay_signature ex_confirm)
        else paymentStatus (sales ex_paid_world ! 0) = Failed)"
    by (elim conjE)
  from confirm
  have ret_confirm:
    "signature_ok demo_hmac ''secret'' ex_confirm \<and>
     fst (verify_payment demo_hmac ''secret'' ex_confirm ex_paid_world) = ex_paid_world \<longrightarrow>
     snd (verify_payment demo_hmac ''secret'' ex_confirm ex_paid_world) =
       Inr (sales ex_paid_world ! 0)"
    by (elim conjE)
  from forged
  have iff_forged:
    "(fst (verify_payment demo_hmac ''secret'' ex_forged ex_paid_world) = ex_paid_world) =
       (if signature_ok demo_hmac ''secret'' ex_forged
        then paymentStatus (sales ex_paid_world ! 0) = Paid \<and>
             status (sales ex_paid_world ! 0) = Completed \<and>
             razorpayPaymentId (sales ex_paid_world ! 0) =
               Some (razorpay_payment_id ex_forged) \<and>
             razorpaySignature (sales ex_paid_world ! 0) =
               Some (razorpay_signature ex_forged)
        else paymentStatus (sales ex_paid_world ! 0) = Failed)"
    by (elim conjE)
  have a: "fst (verify_payment demo_hmac ''secret'' ex_confirm ex_paid_world) = ex_paid_world"
    unfolding iff_confirm using 3(1) 4 by simp
  from ret_confirm 3(1) a
  have b: "snd (verify_payment demo_hmac ''secret'' ex_confirm ex_paid_world) =
     Inr (sales ex_paid_world ! 0)"
    by blast
  have c: "fst (verify_payment demo_hmac ''secret'' ex_forged ex_paid_world) \<noteq> ex_paid_world"
    unfolding iff_forged using 3(2) 4(1) by simp
  from 1 2 3 a b c show ?thesis by blast
qed

text \<open>
  The claim as stated fails: a forged confirmation for the settled order INV-1 turns
  its payment status from Paid to Failed.
\<close>

theorem paid_order_downgraded_counterexample:
  "findOne_invoiceId (body_invoiceId ex_forged) (sales ex_paid_world) = Some 0 \<and>
   paymentStatus (sales ex_paid_world ! 0) = Paid \<and>
   snd (verify_payment demo_hmac ''secret'' ex_forged ex_paid_world) =
     Inl (AppError ''Invalid payment signature'' 400) \<and>
   paymentStatus (sales (fst (verify_payment demo_hmac ''secret'' ex_forged ex_paid_world)) ! 0)
     = Failed"
  by (simp add: verify_payment_def verify_body_valid_def signature_ok_def
      verifyPaymentSignature_def demo_hmac_def mark_failed_def Let_def
      ex_forged_def ex_paid_world_def ex_paid_sale_def)

section \<open>Confirmations with an invalid signature\<close>

text \<open>
  C5. A confirmation whose signature does not verify, for a pending order found by
  its invoice id, answers the invalid-signature error with status 400, sets the
  order's payment status to Failed and leaves its order status as it was; and after
  any run of confirmations whose signatures do not verify, the order is not Paid.
\<close>

theorem invalid_signature_marks_failed:
  assumes "verify_body_valid b"
    and "findOne_invoiceId (body_invoiceId b) (sales w) = Some k"
    and "paymentStatus (sales w ! k) = PaymentPending"
    and "\<not> signature_ok hmac secret b"
  shows "snd (verify_payment hmac secret b w) = Inl (AppError ''Invalid payment signature'' 400) \<and>
         sales (fst (verify_payment hmac secret b w)) =
           (sales w)[k := (sales w ! k)\<lparr>paymentStatus := Failed\<rparr>] \<and>
         paymentStatus (sales (fst (verify_payment hmac secret b w)) ! k) = Failed \<and>
         status (sales (fst (verify_payment hmac secret b w)) ! k) = status (sales w ! k) \<and>
         (\<forall>bs. list_all (\<lambda>b'. \<not> signature_ok hmac secret b') bs \<longrightarrow>
            paymentStatus (sales (verify_payments hmac secret bs w) ! k) \<noteq> Paid)"
proof -
  from assms(2) have k: "k < length (sales w)" by (simp add: findOne_invoiceId_Some)
  have step: "verify_payment hmac secret b w =
      (w\<lparr>sales := (sales w)[k := mark_failed (sales w ! k)]\<rparr>,
       Inl (AppError ''Invalid payment signature'' 400))"
    using assms by (simp add: verify_payment_def Let_def)
  have seq: "\<forall>bs. list_all (\<lambda>b'. \<not> signature_ok hmac secret b') bs \<longrightarrow>
            paymentStatus (sales (verify_payments hmac secret bs w) ! k) \<noteq> Paid"
    using assms(3) k by (simp add: verify_payments_invalid_not_paid)
  from step k seq show ?thesis by (simp add: mark_failed_def)
qed

theorem invalid_signature_marks_failed_witness:
  "verify_body_valid ex_forged \<and>
   findOne_invoiceId (body_invoiceId ex_forged) (sales ex_pending_world) = Some 0 \<and>
   paymentStatus (sales ex_pending_world ! 0) = PaymentPending \<and>
   \<not> signature_ok demo_hmac ''secret'' ex_forged \<and>
   snd (verify_payment demo_hmac ''secret'' ex_forged ex_pending_world) =
     Inl (AppError ''Invalid payment signature'' 400) \<and>
   paymentStatus (sales (fst (verify_payment demo_hmac ''secret'' ex_forged ex_pending_world)) ! 0)
     = Failed \<and>
   status (sales (fst (verify_payment demo_hmac ''secret'' ex_forged ex_pending_world)) ! 0)
     = Pending \<and>
   paymentStatus
     (sales (verify_payments demo_hmac ''secret'' [ex_forged, ex_forged, ex_forged]
        ex_pending_world) ! 0) \<noteq> Paid"
proof -
  have 1: "verify_body_valid ex_forged"
    by (simp add: verify_body_valid_def ex_forged_def)
  have 2: "findOne_invoiceId (body_invoiceId ex_forged) (sales ex_pending_world) = Some 0"
    by (simp add: ex_forged_def ex_pending_world_def ex_pending_sale_def)
  have 3: "paymentStatus (sales ex_pending_world ! 0) = PaymentPending"
    "status (sales ex_pending_world ! 0) = Pending"
    by (simp_all add: ex_pending_world_def ex_pending_sale_def)
  have 4: "\<not> signature_ok demo_hmac ''secret'' ex_forged"
    by (simp add: signature_ok_def verifyPaymentSignature_def demo_hmac_def ex_forged_def)
  have 5: "list_all (\<lambda>b'. \<not> signature_ok demo_hmac ''secret'' b') [ex_forged, ex_forged, ex_forged]"
    using 4 by simp
  from invalid_signature_marks_failed [OF 1 2 3(1) 4] 5
  have "snd (verify_payment demo_hmac ''secret'' ex_forged ex_pending_world) =
     Inl (AppError ''Invalid payment signature'' 400) \<and>
   paymentStatus (sales (fst (verify_payment demo_hmac ''secret'' ex_forged ex_pending_world)) ! 0)
     = Failed \<and>
   status (sales (fst (verify_payment demo_hmac ''secret'' ex_forged ex_pending_world)) ! 0)
     = status (sales ex_pending_world ! 0) \<and>
   paymentStatus
     (sales (verify_payments demo_hmac ''secret'' [ex_forged, ex_forged, ex_forged]
        ex_pending_world) ! 0) \<noteq> Paid"
    by blast
  with 1 2 3 4 show ?thesis by simp
qed

section \<open>Two checkouts of one product\<close>

lemma run_alone_Finished: "run_alone lib n ps (Finished res) = (ps, Finished res)"
  by (induction n) simp_all

lemma stock_loop_Nil: "stock_loop r lib ps [] = (ps, None)"
  by (cases r) (simp_all add: stock_loop_def)

lemma stock_loop_Cons:
  "stock_loop r lib ps (it # its) =
     (case findById lib ps (productId it) of
        CastError \<Rightarrow> (ps, Some (AppError ''Server error'' 500))
      | NotFound \<Rightarrow> (ps, Some (not_found_error r it))
      | Found p \<Rightarrow>
          if stock p < quantity it then (ps, Some (insufficient_error r it p))
          else stock_loop r lib (ps(productId it \<mapsto> p\<lparr>stock := stock p - quantity it\<rparr>)) its)"
  by (cases r)
    (simp_all add: stock_loop_def not_found_error_def insufficient_error_def
      split: find_result.splits)

lemma run_alone_loop:
  "2 * length its < n \<Longrightarrow>
     run_alone lib n ps (Reading r its) =
       (fst (stock_loop r lib ps its), Finished (snd (stock_loop r lib ps its)))"
proof (induction its arbitrary: ps n)
  case Nil
  then obtain m where "n = Suc m" by (cases n) auto
  then show ?case by (simp add: run_alone_Finished stock_loop_Nil)
next
  case (Cons it its)
  then obtain m where n: "n = Suc (Suc m)" and m: "2 * length its < m"
    by (cases n; cases "n - 1") auto
  show ?case
  proof (cases "findById lib ps (productId it)")
    case CastError
    then show ?thesis by (simp add: n run_alone_Finished stock_loop_Cons)
  next
    case NotFound
    then show ?thesis by (simp add: n run_alone_Finished stock_loop_Cons)
  next
    case (Found p)
    show ?thesis
    proof (cases "stock p < quantity it")
      case True
      with Found show ?thesis by (simp add: n run_alone_Finished stock_loop_Cons)
    next
      case False
      let ?ps = "ps(productId it \<mapsto> p\<lparr>stock := stock p - quantity it\<rparr>)"
      from Found False
      have run: "run_alone lib n ps (Reading r (it # its)) = run_alone lib m ?ps (Reading r its)"
        by (simp add: n)
      from Found False
      have loop: "stock_loop r lib ps (it # its) = stock_loop r lib ?ps its"
        by (simp add: stock_loop_Cons)
      show ?thesis
        unfolding run loop by (rule Cons.IH [OF m])
    qed
  qed
qed

lemma task_step_nonneg:
  assumes "\<forall>q x. ps q = Some x \<longrightarrow> 0 \<le> stock x" and "holds_nonneg t"
  shows "(\<forall>q x. fst (task_step lib ps t) q = Some x \<longrightarrow> 0 \<le> stock x) \<and>
         holds_nonneg (snd (task_step lib ps t))"
proof (cases t)
  case (Reading r its)
  show ?thesis
  proof (cases its)
    case Nil
    with Reading assms show ?thesis by (simp add: holds_nonneg_def)
  next
    case (Cons it rest)
    with Reading assms show ?thesis
      by (auto simp: holds_nonneg_def findById_Found split: find_result.splits)
  qed
next
  case (Holding r p its)
  show ?thesis
  proof (cases its)
    case Nil
    with Holding assms show ?thesis by (simp add: holds_nonneg_def)
  next
    case (Cons it rest)
    with Holding assms show ?thesis
      by (auto simp: holds_nonneg_def)
  qed
next
  case (Finished res)
  with assms show ?thesis by (simp add: holds_nonneg_def)
qed

lemma run_two_nonneg:
  assumes "\<forall>q x. ps q = Some x \<longrightarrow> 0 \<le> stock x" and "holds_nonneg a" and "holds_nonneg b"
  shows "\<forall>q x. fst (run_two lib sched (ps, a, b)) q = Some x \<longrightarrow> 0 \<le> stock x"
  using assms
proof (induction sched arbitrary: ps a b)
  case Nil
  then show ?case by simp
next
  case (Cons first sched)
  show ?case
  proof (cases first)
    case True
    obtain ps' a' where st: "task_step lib ps a = (ps', a')" by (cases "task_step lib ps a")
    from task_step_nonneg [OF Cons.prems(1,2), of lib] st
    have "\<forall>q x. ps' q = Some x \<longrightarrow> 0 \<le> stock x" "holds_nonneg a'" by simp_all
    from Cons.IH [OF this Cons.prems(3)] True st show ?thesis by simp
  next
    case False
    obtain ps' b' where st: "task_step lib ps b = (ps', b')" by (cases "task_step lib ps b")
    from task_step_nonneg [OF Cons.prems(1,3), of lib] st
    have "\<forall>q x. ps' q = Some x \<longrightarrow> 0 \<le> stock x" "holds_nonneg b'" by simp_all
    from Cons.IH [OF this(1) Cons.prems(2) this(2)] False st show ?thesis by simp
  qed
qed

text \<open>
  C4 (as amended). A task run alone is the stock loop of its route. For a product
  with stock 5 and two checkouts that each ask 3 of it: when the first runs to its end
  before the second reads, the first succeeds, the second fails with "Insufficient
  stock", and the stock is 2; when both read before either saves, both succeed and the
  stock is 2. Under every schedule, for any items, a store without negative stock
  stays without negative stock.
\<close>

theorem two_checkouts_of_one_product:
  assumes "castObjectId lib pid" and "ps pid = Some p" and "stock p = 5"
    and "productId a = pid" and "quantity a = 3"
    and "productId b = pid" and "quantity b = 3"
  shows "(2 * length its0 < n \<longrightarrow>
            run_alone lib n ps0 (Reading r0 its0) =
              (fst (stock_loop r0 lib ps0 its0), Finished (snd (stock_loop r0 lib ps0 its0)))) \<and>
         run_two lib [True, True, True, False, False] (ps, Reading ra [a], Reading rb [b]) =
           (ps(pid \<mapsto> p\<lparr>stock := 2\<rparr>), Finished None,
            Finished (Some (insufficient_error rb b (p\<lparr>stock := 2\<rparr>)))) \<and>
         run_two lib [True, False, True, False, True, False]
             (ps, Reading ra [a], Reading rb [b]) =
           (ps(pid \<mapsto> p\<lparr>stock := 2\<rparr>), Finished None, Finished None) \<and>
         ((\<forall>q x. ps1 q = Some x \<longrightarrow> 0 \<le> stock x) \<and>
          fst (run_two lib sched (ps1, Reading ra itsA, Reading rb itsB)) q1 = Some x1 \<longrightarrow>
            0 \<le> stock x1)"
proof (intro conjI impI)
  assume "2 * length its0 < n"
  then show "run_alone lib n ps0 (Reading r0 its0) =
      (fst (stock_loop r0 lib ps0 its0), Finished (snd (stock_loop r0 lib ps0 its0)))"
    by (rule run_alone_loop)
next
  have rd: "findById lib ps pid = Found p"
    using assms(1,2) by (simp add: findById_Found)
  have rd': "findById lib (ps(pid \<mapsto> p\<lparr>stock := 2\<rparr>)) pid = Found (p\<lparr>stock := 2\<rparr>)"
    using assms(1) by (simp add: findById_Found)
  show "run_two lib [True, True, True, False, False] (ps, Reading ra [a], Reading rb [b]) =
      (ps(pid \<mapsto> p\<lparr>stock := 2\<rparr>), Finished None,
       Finished (Some (insufficient_error rb b (p\<lparr>stock := 2\<rparr>))))"
    using assms(3-7) by (simp add: rd rd')
  show "run_two lib [True, False, True, False, True, False]
        (ps, Reading ra [a], Reading rb [b]) =
      (ps(pid \<mapsto> p\<lparr>stock := 2\<rparr>), Finished None, Finished None)"
    using assms(3-7) by (simp add: rd)
next
  assume h: "(\<forall>q x. ps1 q = Some x \<longrightarrow> 0 \<le> stock x) \<and>
    fst (run_two lib sched (ps1, Reading ra itsA, Reading rb itsB)) q1 = Some x1"
  from h have "\<forall>q x. ps1 q = Some x \<longrightarrow> 0 \<le> stock x" by blast
  then have "\<forall>q x. fst (run_two lib sched (ps1, Reading ra itsA, Reading rb itsB)) q = Some x
      \<longrightarrow> 0 \<le> stock x"
    by (rule run_two_nonneg) (simp_all add: holds_nonneg_def)
  with h show "0 \<le> stock x1" by blast
qed

text \<open>An instance: two checkouts of 3 Aspirin, one on each route.\<close>

theorem two_checkouts_of_one_product_witness:
  "castObjectId demo_library ex_p1 \<and>
   ex_products ex_p1 = Some \<lparr>pname = ''Aspirin'', stock = 5\<rparr> \<and>
   productId ex_item3 = ex_p1 \<and> quantity ex_item3 = 3 \<and>
   run_alone demo_library 3 ex_products (Reading InvoicesRoute [ex_item3]) =
     (fst (stock_loop InvoicesRoute demo_library ex_products [ex_item3]),
      Finished (snd (stock_loop InvoicesRoute demo_library ex_products [ex_item3]))) \<and>
   run_two demo_library [True, True, True, False, False]
       (ex_products, Reading InvoicesRoute [ex_item3], Reading SalesRoute [ex_item3]) =
     (ex_products(ex_p1 \<mapsto> \<lparr>pname = ''Aspirin'', stock = 5\<rparr>\<lparr>stock := 2\<rparr>), Finished None,
      Finished (Some (insufficient_error SalesRoute ex_item3
        (\<lparr>pname = ''Aspirin'', stock = 5\<rparr>\<lparr>stock := 2\<rparr>)))) \<and>
   run_two demo_library [True, False, True, False, True, False]
       (ex_products, Reading InvoicesRoute [ex_item3], Reading SalesRoute [ex_item3]) =
     (ex_products(ex_p1 \<mapsto> \<lparr>pname = ''Aspirin'', stock = 5\<rparr>\<lparr>stock := 2\<rparr>), Finished None,
      Finished None) \<and>
   fst (run_two demo_library [True, False, True, False]
       (ex_products, Reading InvoicesRoute [ex_item3], Reading SalesRoute [ex_item3])) ex_p1 =
     Some \<lparr>pname = ''Aspirin'', stock = 2\<rparr> \<and>
   0 \<le> stock \<lparr>pname = ''Aspirin'', stock = 2\<rparr>"
proof -
  have 1: "castObjectId demo_library ex_p1"
    by (simp add: demo_library_sel ex_ids_cast)
  have 2: "ex_products ex_p1 = Some \<lparr>pname = ''Aspirin'', stock = 5\<rparr>"
    by (rule ex_products_at)
  have 3: "stock \<lparr>pname = ''Aspirin'', stock = 5\<rparr> = 5" by simp
  have 4: "productId ex_item3 = ex_p1" "quantity ex_item3 = 3"
    by (simp_all add: ex_item3_def)
  have 5: "2 * length [ex_item3] < (3::nat)" by simp
  have 6: "\<forall>q x. ex_products q = Some x \<longrightarrow> 0 \<le> stock x"
    by (auto simp: ex_products_def split: if_splits)
  have 7: "fst (run_two demo_library [True, False, True, False]
       (ex_products, Reading InvoicesRoute [ex_item3], Reading SalesRoute [ex_item3])) ex_p1 =
     Some \<lparr>pname = ''Aspirin'', stock = 2\<rparr>"
    by (simp add: findById_def demo_library_sel ex_ids_cast ex_products_at ex_item3_def)
  from 1 2 4 5 6 7
    two_checkouts_of_one_product
      [where lib = demo_library and pid = ex_p1 and ps = ex_products
         and p = "\<lparr>pname = ''Aspirin'', stock = 5\<rparr>" and a = ex_item3 and b = ex_item3
         and ?its0.0 = "[ex_item3]" and n = 3 and ?ps0.0 = ex_products
         and ?r0.0 = InvoicesRoute
         and ra = InvoicesRoute and rb = SalesRoute and ?ps1.0 = ex_products
         and sched = "[True, False, True, False]" and itsA = "[ex_item3]"
         and itsB = "[ex_item3]" and ?q1.0 = ex_p1
         and ?x1.0 = "\<lparr>pname = ''Aspirin'', stock = 2\<rparr>",
       OF 1 2 3 4(1) 4(2) 4(1) 4(2)]
  show ?thesis by blast
qed

text \<open>
  The claim as stated fails: 5 Aspirin in stock, two checkouts of 3 Aspirin, both read
  before either saves; both succeed, on either route.
\<close>

theorem both_checkouts_succeed_counterexample:
  "map_option stock (ex_products ex_p1) = Some 5 \<and>
   quantity ex_item3 = 3 \<and>
   run_two demo_library [True, False, True, False, True, False]
       (ex_products, Reading InvoicesRoute [ex_item3], Reading InvoicesRoute [ex_item3]) =
     (ex_products(ex_p1 \<mapsto> \<lparr>pname = ''Aspirin'', stock = 2\<rparr>), Finished None,
      Finished None) \<and>
   run_two demo_library [True, False, True, False, True, False]
       (ex_products, Reading SalesRoute [ex_item3], Reading SalesRoute [ex_item3]) =
     (ex_products(ex_p1 \<mapsto> \<lparr>pname = ''Aspirin'', stock = 2\<rparr>), Finished None,
      Finished None)"
  by (simp add: findById_def demo_library_sel ex_ids_cast ex_products_at ex_item3_def)

section \<open>The total amount of a persisted order\<close>

lemma reduce_total_sum: "reduce_total its = sum_list (map total its)"
proof -
  have "foldl (\<lambda>sum it. sum + total it) a its = a + sum_list (map total its)" for a
    by (induction its arbitrary: a) (auto simp: algebra_simps)
  then show ?thesis by (simp add: reduce_total_def)
qed

text \<open>
  C6 (as amended). An order the sales checkout persists has as total amount the sum
  of its items' totals. An order the invoices checkout persists has as total amount
  the total amount of the request.
\<close>

theorem persisted_total_amount:
  "(snd (create_sale lib gateway receiptStamp invoiceStamp sb w) = Inr s \<longrightarrow>
      totalAmount s = sum_list (map total (items s)) \<and>
      sales (fst (create_sale lib gateway receiptStamp invoiceStamp sb w)) = sales w @ [s]) \<and>
   (snd (create_invoice lib gateway newId user b w) = Inr r \<longrightarrow>
      totalAmount (invoice_of r) = body_totalAmount b \<and>
      sales (fst (create_invoice lib gateway newId user b w)) = sales w @ [invoice_of r])"
proof (intro conjI impI)
  assume h: "snd (create_sale lib gateway receiptStamp invoiceStamp sb w) = Inr s"
  then show "totalAmount s = sum_list (map total (items s))"
    by (auto simp: create_sale_def Let_def pending_sale_def reduce_total_sum
        split: prod.splits option.splits)
  from h show "sales (fst (create_sale lib gateway receiptStamp invoiceStamp sb w)) = sales w @ [s]"
    by (auto simp: create_sale_def Let_def dest: save_new_sale_Some
        split: prod.splits option.splits)
next
  assume h: "snd (create_invoice lib gateway newId user b w) = Inr r"
  then show "totalAmount (invoice_of r) = body_totalAmount b"
    by (auto simp: create_invoice_def invoice_handler_def Let_def cash_invoice_def
        upi_invoice_def sanitize_body_sel
        split: prod.splits option.splits gateway_result.splits if_splits)
  from h show "sales (fst (create_invoice lib gateway newId user b w)) = sales w @ [invoice_of r]"
    by (auto simp: create_invoice_def invoice_handler_def Let_def dest: save_new_sale_Some
        split: prod.splits option.splits gateway_result.splits if_splits)
qed

theorem persisted_total_amount_witness:
  "snd (create_sale demo_library gateway_up ''1700000000000'' ''1700000000001'' ex_sale_body
          ex_world) =
     Inr (pending_sale ''INV-1700000000001'' ex_sale_body (1 / 2) (Some ''order_1'')) \<and>
   totalAmount (pending_sale ''INV-1700000000001'' ex_sale_body (1 / 2) (Some ''order_1'')) =
     sum_list (map total
       (items (pending_sale ''INV-1700000000001'' ex_sale_body (1 / 2) (Some ''order_1'')))) \<and>
   snd (create_invoice demo_library gateway_up ''INV-2'' ex_user ex_body_upi ex_world) =
     Inr (UpiInvoice (upi_invoice ''INV-2'' ex_user ex_body_upi ''order_1'') ''order_1'' 2000) \<and>
   totalAmount
     (invoice_of (UpiInvoice (upi_invoice ''INV-2'' ex_user ex_body_upi ''order_1'') ''order_1''
        2000)) =
     body_totalAmount ex_body_upi"
proof -
  have 1: "snd (create_sale demo_library gateway_up ''1700000000000'' ''1700000000001''
        ex_sale_body ex_world) =
     Inr (pending_sale ''INV-1700000000001'' ex_sale_body (1 / 2) (Some ''order_1''))"
    by (simp add: demo_eval ex_sale_body_def ex_world_def ex_item_half_def)
  have 2: "snd (create_invoice demo_library gateway_up ''INV-2'' ex_user ex_body_upi ex_world) =
     Inr (UpiInvoice (upi_invoice ''INV-2'' ex_user ex_body_upi ''order_1'') ''order_1'' 2000)"
    by (simp add: demo_eval ex_body_upi_def ex_world_def ex_item1_def ex_user_def)
  from 1 2 persisted_total_amount
    [where lib = demo_library and gateway = gateway_up and receiptStamp = "''1700000000000''"
       and invoiceStamp = "''1700000000001''" and sb = ex_sale_body and w = ex_world
       and s = "pending_sale ''INV-1700000000001'' ex_sale_body (1 / 2) (Some ''order_1'')"
       and newId = "''INV-2''" and user = ex_user and b = ex_body_upi
       and r = "UpiInvoice (upi_invoice ''INV-2'' ex_user ex_body_upi ''order_1'') ''order_1'' 2000"]
  show ?thesis by blast
qed

text \<open>
  The claim as stated fails: a cash checkout on the invoices route with one item of
  total 20 and a total amount of 999 persists an order of total amount 999.
\<close>

theorem total_amount_from_request_counterexample:
  "map totalAmount
     (sales (fst (create_invoice demo_library gateway_up ''INV-2'' ex_user ex_body_cash ex_world)))
     = [999] \<and>
   map (\<lambda>s. sum_list (map total (items s)))
     (sales (fst (create_invoice demo_library gateway_up ''INV-2'' ex_user ex_body_cash ex_world)))
     = [20]"
  by (simp add: demo_eval ex_body_cash_def ex_world_def ex_item1_def ex_user_def)

section \<open>Signature verification is the comparison with the keyed hash\<close>

text \<open>
  C7. verifyPaymentSignature answers true exactly when the signature it is given is
  the hex digest of the keyed hash, under the shared secret, of the order id, a bar
  and the payment id.
\<close>

theorem verifyPaymentSignature_iff:
  "verifyPaymentSignature hmac secret orderId paymentId signature \<longleftrightarrow>
     signature = hmac secret (orderId @ ''|'' @ paymentId)"
  by (auto simp: verifyPaymentSignature_def)

theorem verifyPaymentSignature_iff_witness:
  "verifyPaymentSignature demo_hmac ''secret'' ''order_1'' ''pay_1'' ''order_1|pay_1#secret'' \<and>
   \<not> verifyPaymentSignature demo_hmac ''secret'' ''order_1'' ''pay_1'' ''forged''"
  using verifyPaymentSignature_iff [of demo_hmac "''secret''" "''order_1''" "''pay_1''" "''order_1|pay_1#secret''"]
    verifyPaymentSignature_iff [of demo_hmac "''secret''" "''order_1''" "''pay_1''" "''forged''"]
  by (simp add: demo_hmac_def)

section \<open>A duplicate invoice id\<close>

text \<open>
  C8. A checkout whose invoice id is already stored, with a document that is valid
  otherwise: the unique index refuses the new document and the stored order stays as
  it is, but both routes answer "Server error" with status 500, not a conflict
  (status 409).
\<close>

theorem duplicate_invoice_id_is_server_error:
  "snd (create_invoice demo_library gateway_up ''INV-1'' ex_user
          (ex_body_upi\<lparr>body_paymentMethod := Some Cash\<rparr>) ex_paid_world) =
     Inl (AppError ''Server error'' 500) \<and>
   sales (fst (create_invoice demo_library gateway_up ''INV-1'' ex_user
          (ex_body_upi\<lparr>body_paymentMethod := Some Cash\<rparr>) ex_paid_world)) =
     [ex_paid_sale] \<and>
   snd (create_invoice demo_library gateway_up ''INV-1'' ex_user ex_body_upi ex_paid_world) =
     Inl (AppError ''Server error'' 500) \<and>
   sales (fst (create_invoice demo_library gateway_up ''INV-1'' ex_user ex_body_upi ex_paid_world)) =
     [ex_paid_sale] \<and>
   snd (create_sale demo_library gateway_up ''1'' ''1'' ex_sale_body ex_paid_world) =
     Inl (AppError ''Server error'' 500) \<and>
   sales (fst (create_sale demo_library gateway_up ''1'' ''1'' ex_sale_body ex_paid_world)) =
     [ex_paid_sale] \<and>
   sale_schema_valid demo_library (cash_invoice ''INV-1'' ex_user ex_body_upi) \<and>
   sale_schema_valid demo_library
     (pending_sale ''INV-1'' ex_sale_body (1 / 2) (Some ''order_1''))"
  by (simp add: demo_eval ex_body_upi_def ex_sale_body_def ex_paid_world_def
      ex_paid_sale_def ex_item1_def ex_item_half_def ex_user_def)

section \<open>The amount sent to the gateway\<close>

text \<open>
  C9. The sales checkout for one item of total 0.5 asks the gateway for 50 paise,
  where rounding and clamping to the minimum give 100; the invoices checkout for the
  same total asks for 100.
\<close>

theorem sales_checkout_amount_unclamped:
  "map amount (gateway_calls
      (fst (create_sale demo_library gateway_up ''1700000000000'' ''1700000000001'' ex_sale_body
         ex_world)))
     = [50] \<and>
   real_of_int (orderAmountPaise (reduce_total (sb_items ex_sale_body))) = 100 \<and>
   map amount (gateway_calls
      (fst (create_invoice demo_library gateway_up ''INV-2'' ex_user
          (ex_body_upi\<lparr>body_items := [ex_item_half], body_totalAmount := 1 / 2\<rparr>) ex_world)))
     = [100]"
  by (simp add: demo_eval ex_body_upi_def ex_sale_body_def ex_world_def ex_item_half_def
      ex_user_def)

section \<open>A confirmation is not bound to the order it settles\<close>

text \<open>
  C10. A confirmation whose signature verifies, for a pending order found by its
  invoice id, marks the order Completed and Paid and records the payment id and the
  signature of the request, whatever gateway order id the order stores; the stored
  gateway order id is not compared with the request's and stays as it was.
\<close>

theorem valid_signature_settles_any_order:
  assumes "verify_body_valid b"
    and "findOne_invoiceId (body_invoiceId b) (sales w) = Some k"
    and "paymentStatus (sales w ! k) = PaymentPending"
    and "signature_ok hmac secret b"
  shows "snd (verify_payment hmac secret b w) =
           Inr ((sales w ! k)\<lparr>paymentStatus := Paid,
                  razorpayPaymentId := Some (razorpay_payment_id b),
                  razorpaySignature := Some (razorpay_signature b),
                  status := Completed\<rparr>) \<and>
         sales (fst (verify_payment hmac secret b w)) =
           (sales w)[k := (sales w ! k)\<lparr>paymentStatus := Paid,
                  razorpayPaymentId := Some (razorpay_payment_id b),
                  razorpaySignature := Some (razorpay_signature b),
                  status := Completed\<rparr>] \<and>
         razorpayOrderId (sales (fst (verify_payment hmac secret b w)) ! k) =
           razorpayOrderId (sales w ! k)"
proof -
  from assms(2) have k: "k < length (sales w)" by (simp add: findOne_invoiceId_Some)
  have "verify_payment hmac secret b w =
      (w\<lparr>sales := (sales w)[k := mark_paid b (sales w ! k)]\<rparr>, Inr (mark_paid b (sales w ! k)))"
    using assms by (simp add: verify_payment_def Let_def)
  with k show ?thesis by (simp add: mark_paid_def)
qed

text \<open>An instance: INV-1 was opened as order_1 and is settled by a confirmation
  signed for order_7.\<close>

theorem valid_signature_settles_any_order_witness:
  "verify_body_valid ex_foreign \<and>
   findOne_invoiceId (body_invoiceId ex_foreign) (sales ex_pending_world) = Some 0 \<and>
   paymentStatus (sales ex_pending_world ! 0) = PaymentPending \<and>
   signature_ok demo_hmac ''secret'' ex_foreign \<and>
   razorpayOrderId (sales ex_pending_world ! 0) = Some ''order_1'' \<and>
   razorpay_order_id ex_foreign = ''order_7'' \<and>
   snd (verify_payment demo_hmac ''secret'' ex_foreign ex_pending_world) =
     Inr ((sales ex_pending_world ! 0)\<lparr>paymentStatus := Paid,
            razorpayPaymentId := Some (razorpay_payment_id ex_foreign),
            razorpaySignature := Some (razorpay_signature ex_foreign),
            status := Completed\<rparr>) \<and>
   razorpayOrderId (sales (fst (verify_payment demo_hmac ''secret'' ex_foreign ex_pending_world)) ! 0)
     = razorpayOrderId (sales ex_pending_world ! 0)"
proof -
  have 1: "verify_body_valid ex_foreign"
    by (simp add: verify_body_valid_def ex_foreign_def)
  have 2: "findOne_invoiceId (body_invoiceId ex_foreign) (sales ex_pending_world) = Some 0"
    by (simp add: ex_foreign_def ex_pending_world_def ex_pending_sale_def)
  have 3: "paymentStatus (sales ex_pending_world ! 0) = PaymentPending"
    by (simp add: ex_pending_world_def ex_pending_sale_def)
  have 4: "signature_ok demo_hmac ''secret'' ex_foreign"
    by (simp add: signature_ok_def verifyPaymentSignature_def demo_hmac_def ex_foreign_def)
  have 5: "razorpayOrderId (sales ex_pending_world ! 0) = Some ''order_1''"
    by (simp add: ex_pending_world_def ex_pending_sale_def)
  have 6: "razorpay_order_id ex_foreign = ''order_7''"
    by (simp add: ex_foreign_def)
  from 1 2 3 4 5 6 valid_signature_settles_any_order [OF 1 2 3 4]
  show ?thesis by blast
qed

end
